theory Spec2Isabelle
  imports Main
begin

section \<open>Strings and platform functions\<close>

text \<open>
  The action is TypeScript (\<^verbatim>\<open>src/main.ts\<close>). A JavaScript string is modelled as a
  \<^typ>\<open>string\<close>: a list of code units below 256. An optional or nullable string
  (\<^verbatim>\<open>string | undefined | null\<close>) is a \<^typ>\<open>string option\<close>. A thrown exception
  is the left summand of a sum type.
\<close>

datatype error =
    Error string              \<comment> \<open>\<^verbatim>\<open>throw new Error(msg)\<close>\<close>
  | TypeError string          \<comment> \<open>raised by the platform (\<^verbatim>\<open>new URL\<close>, iterating \<^verbatim>\<open>undefined\<close>)\<close>
  | ProcessError string int   \<comment> \<open>\<^verbatim>\<open>new Error(`${program} exited with code ${exit}`)\<close>\<close>
  | Rejected string           \<comment> \<open>a rejected promise of an external collaborator\<close>

text \<open>JavaScript truthiness of an optional string: absent and empty are both falsy.\<close>

fun truthy :: "string option \<Rightarrow> bool" where
  "truthy None = False"
| "truthy (Some s) = (s \<noteq> [])"

text \<open>
  White space and line terminators of ECMAScript, in the range of \<^typ>\<open>char\<close>:
  tab, line feed, vertical tab, form feed, carriage return, space, no-break space.
  The regular expression class \<^verbatim>\<open>\S\<close> is its complement, \<^verbatim>\<open>String.prototype.trim\<close>
  strips it from both ends, and \<^verbatim>\<open>.\<close> matches everything but a line terminator.
\<close>

definition js_space :: "char \<Rightarrow> bool" where
  "js_space c = (c = CHR 0x09 \<or> c = CHR 0x0A \<or> c = CHR 0x0B \<or> c = CHR 0x0C
     \<or> c = CHR 0x0D \<or> c = CHR 0x20 \<or> c = CHR 0xA0)"

definition nonspace :: "char \<Rightarrow> bool" where
  "nonspace c = (\<not> js_space c)"

definition line_terminator :: "char \<Rightarrow> bool" where
  "line_terminator c = (c = CHR 0x0A \<or> c = CHR 0x0D)"

definition trim :: "string \<Rightarrow> string" where
  "trim s = rev (dropWhile js_space (rev (dropWhile js_space s)))"

subsection \<open>\<^verbatim>\<open>path.normalize\<close> and \<^verbatim>\<open>path.join\<close> (POSIX)\<close>

text \<open>
  Node's \<^verbatim>\<open>normalizeString\<close> walks the path once and keeps the segments seen so far:
  an empty segment and \<^verbatim>\<open>.\<close> are dropped, \<^verbatim>\<open>..\<close> removes the last kept segment unless
  there is none or it is \<^verbatim>\<open>..\<close> itself, in which case \<^verbatim>\<open>..\<close> is kept when the path is
  relative (\<^verbatim>\<open>allowAboveRoot\<close>). Here the kept segments are a list, last one first.
\<close>

fun segments :: "string \<Rightarrow> string list" where
  "segments [] = [[]]"
| "segments (c # cs) =
     (if c = CHR ''/'' then [] # segments cs
      else (case segments cs of [] \<Rightarrow> [[c]] | x # xs \<Rightarrow> (c # x) # xs))"

fun join_segments :: "string list \<Rightarrow> string" where
  "join_segments [] = []"
| "join_segments [x] = x"
| "join_segments (x # y # ys) = x @ CHR ''/'' # join_segments (y # ys)"

fun normalizeString :: "bool \<Rightarrow> string list \<Rightarrow> string list \<Rightarrow> string list" where
  "normalizeString allowAboveRoot res [] = rev res"
| "normalizeString allowAboveRoot res (seg # segs) =
     (if seg = [] \<or> seg = ''.'' then normalizeString allowAboveRoot res segs
      else if seg = ''..'' then
        (case res of
           [] \<Rightarrow> normalizeString allowAboveRoot (if allowAboveRoot then [''..''] else []) segs
         | r # rs \<Rightarrow>
             if r = ''..''
             then normalizeString allowAboveRoot (if allowAboveRoot then ''..'' # res else res) segs
             else normalizeString allowAboveRoot rs segs)
      else normalizeString allowAboveRoot (seg # res) segs)"

definition normalize :: "string \<Rightarrow> string" where
  "normalize p =
     (if p = [] then ''.''
      else
        let isAbsolute = (hd p = CHR ''/'');
            trailingSeparator = (last p = CHR ''/'');
            q = join_segments (normalizeString (\<not> isAbsolute) [] (segments p))
        in if q = [] then (if isAbsolute then ''/'' else if trailingSeparator then ''./'' else ''.'')
           else (if isAbsolute then ''/'' else []) @ q @ (if trailingSeparator then ''/'' else []))"

definition join :: "string \<Rightarrow> string \<Rightarrow> string" where
  "join a b =
     (if a = [] \<and> b = [] then ''.''
      else if a = [] then normalize b
      else if b = [] then normalize a
      else normalize (a @ CHR ''/'' # b))"

subsection \<open>The \<^verbatim>\<open>URL\<close> constructor\<close>

text \<open>
  \<^verbatim>\<open>new URL(url)\<close> is the platform's parser; of its result the code reads
  \<^verbatim>\<open>protocol\<close> and \<^verbatim>\<open>pathname\<close>, and it throws a \<^verbatim>\<open>TypeError\<close> on an invalid URL.
  The functions below take the constructor as a parameter, so what is proved of them
  holds for any parser.
\<close>

record url =
  protocol :: string
  pathname :: string

type_synonym URL_ctor = "string \<Rightarrow> error + url"

text \<open>
  For evaluating examples: the parser on plain URLs \<^verbatim>\<open>scheme://host/path\<close> whose
  characters need no percent-encoding. The path ends at \<^verbatim>\<open>?\<close> or \<^verbatim>\<open>#\<close>; the dot
  segments of the path are removed as the URL standard's path state does it (\<^verbatim>\<open>..\<close>
  drops the segment before it, \<^verbatim>\<open>.\<close> is skipped, and either one in last position
  leaves an empty last segment); a host with a forbidden host code point is invalid.
\<close>

fun url_path :: "string list \<Rightarrow> string list \<Rightarrow> string list" where
  "url_path res [] = rev res"
| "url_path res (seg # segs) =
     (if seg = ''..'' then url_path (if segs = [] then [] # tl res else tl res) segs
      else if seg = ''.'' then url_path (if segs = [] then [] # res else res) segs
      else url_path (seg # res) segs)"

definition forbidden_host_char :: "char \<Rightarrow> bool" where
  "forbidden_host_char c =
     (js_space c \<or> c = CHR 0x00 \<or> c = CHR 0x5C \<or> List.member ''#/:<>?@[]^|%'' c)"

definition plain_URL :: URL_ctor where
  "plain_URL u =
     (let scheme = takeWhile (\<lambda>c. c \<noteq> CHR '':'') u;
          rest = dropWhile (\<lambda>c. c \<noteq> CHR '':'') u
      in if scheme = [] \<or> take 3 rest \<noteq> ''://'' then Inl (TypeError ''Invalid URL'')
         else
           let hp = takeWhile (\<lambda>c. c \<noteq> CHR ''?'' \<and> c \<noteq> CHR ''#'') (drop 3 rest);
               host = takeWhile (\<lambda>c. c \<noteq> CHR ''/'') hp;
               p = dropWhile (\<lambda>c. c \<noteq> CHR ''/'') hp
           in if list_ex forbidden_host_char host then Inl (TypeError ''Invalid URL'')
              else Inr \<lparr>protocol = scheme @ '':'',
                        pathname = CHR ''/'' # join_segments (url_path [] (segments (drop 1 p)))\<rparr>)"

section \<open>Workspace resolver\<close>

record CrateArgs =
  arg_name :: "string option"
  arg_path :: "string option"

record CrateDetails =
  name :: string
  path :: string
  version :: string

text \<open>
  \<^verbatim>\<open>pkg.match(/^(\S+) (\S+) \(path\+(file:[/]{2}.+)\)$/)\<close>: the three groups, or
  \<^const>\<open>None\<close> when the string does not match. The first group is the longest prefix
  free of white space and must be followed by one space; so is the second; then comes
  \<^verbatim>\<open> (path+file://\<close>, at least one character other than a line terminator, and a
  closing parenthesis as the last character of the string.
\<close>

definition match_member :: "string \<Rightarrow> (string \<times> string \<times> string) option" where
  "match_member pkg =
     (let g1 = takeWhile nonspace pkg;
          r1 = dropWhile nonspace pkg;
          g2 = takeWhile nonspace (drop 1 r1);
          r2 = dropWhile nonspace (drop 1 r1);
          r3 = drop 14 r2
      in if g1 = [] \<or> take 1 r1 \<noteq> '' '' \<or> g2 = []
            \<or> take 14 r2 \<noteq> '' (path+file://''
            \<or> length r3 < 2 \<or> last r3 \<noteq> CHR '')'' \<or> list_ex line_terminator (butlast r3)
         then None
         else Some (g1, g2, ''file://'' @ butlast r3))"

definition parseWorkspacePkg :: "URL_ctor \<Rightarrow> string \<Rightarrow> error + CrateDetails option" where
  "parseWorkspacePkg URL pkg =
     (case match_member pkg of
        None \<Rightarrow> Inr None    \<comment> \<open>after the warning \<^verbatim>\<open>could not parse package format\<close>\<close>
      | Some (n, v, url) \<Rightarrow>
          (case URL url of
             Inl e \<Rightarrow> Inl e
           | Inr u \<Rightarrow>
               if protocol u \<noteq> ''file:''
               then Inl (Error ''pkgid is returning a non-local crate'')
               else Inr (Some \<lparr>name = n, path = normalize (pathname u), version = v\<rparr>)))"

text \<open>
  The loop of \<^verbatim>\<open>pkgid\<close> over the workspace members (lines 333 to 342):
  \<^const>\<open>None\<close> when it runs to its end without returning.
\<close>

fun pkgid_loop :: "URL_ctor \<Rightarrow> CrateArgs \<Rightarrow> string list \<Rightarrow> error + CrateDetails option" where
  "pkgid_loop URL crate [] = Inr None"
| "pkgid_loop URL crate (pkg # pkgs) =
     (case parseWorkspacePkg URL pkg of
        Inl e \<Rightarrow> Inl e
      | Inr None \<Rightarrow> pkgid_loop URL crate pkgs
      | Inr (Some parsed) \<Rightarrow>
          if (truthy (arg_name crate) \<and> arg_name crate = Some (name parsed))
             \<or> (truthy (arg_path crate) \<and> arg_path crate = Some (path parsed))
          then Inr (Some parsed)
          else pkgid_loop URL crate pkgs)"

text \<open>
  The selection of \<^verbatim>\<open>pkgid\<close> among the members that the metadata query returned
  (lines 331 to 350).
\<close>

definition pkgid_members :: "URL_ctor \<Rightarrow> CrateArgs \<Rightarrow> string list \<Rightarrow> error + CrateDetails" where
  "pkgid_members URL crate pkgs =
     (if truthy (arg_name crate) \<or> truthy (arg_path crate) then
        (case pkgid_loop URL crate pkgs of
           Inl e \<Rightarrow> Inl e
         | Inr (Some parsed) \<Rightarrow> Inr parsed
         | Inr None \<Rightarrow> Inl (Error ''no matching crate found''))
      else if length pkgs = 1 then
        (case parseWorkspacePkg URL (pkgs ! 0) of
           Inl e \<Rightarrow> Inl e
         | Inr None \<Rightarrow> Inl (Error ''no good crate found'')
         | Inr (Some parsed) \<Rightarrow> Inr parsed)
      else Inl (Error ''no matching crate found''))"

text \<open>A member string is well-formed when it matches the grammar of the regular expression.\<close>

definition matches_grammar :: "string \<Rightarrow> bool" where
  "matches_grammar pkg = (match_member pkg \<noteq> None)"


section \<open>External collaborators and effects\<close>

text \<open>
  Everything the action does to the outside world is a call to a collaborator:
  \<^verbatim>\<open>@actions/exec\<close>, \<^verbatim>\<open>fs.readFile\<close>, the GitHub API and \<^verbatim>\<open>@actions/core\<close>. The state of
  a run is the list of the calls made so far, oldest first. The logging calls
  (\<^verbatim>\<open>debug\<close>, \<^verbatim>\<open>info\<close>, \<^verbatim>\<open>warning\<close>, \<^verbatim>\<open>error\<close>) have no result and are left out.
\<close>

datatype call =
    Exec string "string list" "string option"
      \<comment> \<open>\<^verbatim>\<open>_exec(program, args, {cwd})\<close>\<close>
  | GetExecOutput string "string list"
      \<comment> \<open>\<^verbatim>\<open>getExecOutput(program, args)\<close>\<close>
  | ReadFile string
      \<comment> \<open>\<^verbatim>\<open>fs.readFile(path, 'utf-8')\<close>\<close>
  | GetRepo
      \<comment> \<open>\<^verbatim>\<open>GET /repos/{owner}/{repo}\<close>\<close>
  | CreatePull string string string string bool bool
      \<comment> \<open>\<^verbatim>\<open>POST /repos/{owner}/{repo}/pulls\<close>: title, body, head, base,
         maintainer\_can\_modify, draft\<close>
  | SetOutput string string
  | SetFailed error

record PR =
  pr_title :: string
  pr_label :: "string option"
  pr_draft :: bool
  pr_modifiable :: bool
  pr_template :: "string option"
  pr_templateFile :: "string option"
  pr_mergeStrategy :: string
  pr_releaseNotes :: bool

record CrateVars =
  crate_name :: string
  crate_path :: string

record VersionVars =
  previous :: string
  actual :: string
  desired :: string

record TemplateVars =
  vars_pr :: PR
  vars_crate :: CrateVars
  vars_version :: VersionVars
  vars_branchName :: string
  vars_title :: "string option"

record Git =
  git_name :: string
  git_email :: string
  branchPrefix :: string
  branchSeparator :: string

text \<open>
  \<^verbatim>\<open>InputsType\<close> is declared in \<^verbatim>\<open>./schema\<close>; these are the fields that \<^verbatim>\<open>main.ts\<close> reads.
\<close>

record Inputs =
  inputs_githubToken :: string
  inputs_baseBranch :: "string option"
  inputs_version :: string
  inputs_crate :: CrateArgs
  inputs_pr :: PR
  inputs_git :: Git

text \<open>
  The collaborators answer a call as a function of the calls so far, the call being
  answered last. An answer is a value or a rejection. \<^verbatim>\<open>new URL\<close>, \<^verbatim>\<open>ejs.render\<close> and
  \<^verbatim>\<open>JSON.parse(stdout)?.workspace_members\<close> are functions of their arguments alone; the
  last one yields \<^const>\<open>None\<close> when the property is \<^verbatim>\<open>undefined\<close>.
\<close>

record env =
  new_URL :: URL_ctor
  ejs_render :: "string \<Rightarrow> TemplateVars \<Rightarrow> error + string"
  JSON_workspace_members :: "string \<Rightarrow> error + string list option"
  exec :: "call list \<Rightarrow> error + int"
  getExecOutput :: "call list \<Rightarrow> error + int \<times> string"
  readFile :: "call list \<Rightarrow> error + string"
  request :: "call list \<Rightarrow> error + string"
  getInputs :: "error + Inputs"
  dirname :: string

type_synonym 'a io = "call list \<Rightarrow> (error + 'a) \<times> call list"

definition io_return :: "'a \<Rightarrow> 'a io" where
  "io_return x s = (Inr x, s)"

definition io_throw :: "error \<Rightarrow> 'a io" where
  "io_throw e s = (Inl e, s)"

definition io_of :: "error + 'a \<Rightarrow> 'a io" where
  "io_of r s = (r, s)"

definition io_bind :: "'a io \<Rightarrow> ('a \<Rightarrow> 'b io) \<Rightarrow> 'b io" where
  "io_bind m f s = (case m s of (Inl e, s') \<Rightarrow> (Inl e, s') | (Inr x, s') \<Rightarrow> f x s')"

definition io_call :: "(call list \<Rightarrow> error + 'a) \<Rightarrow> call \<Rightarrow> 'a io" where
  "io_call answer c s = (answer (s @ [c]), s @ [c])"

definition setOutput :: "string \<Rightarrow> string \<Rightarrow> unit io" where
  "setOutput k v s = (Inr (), s @ [SetOutput k v])"

subsection \<open>External process runner\<close>

definition execAndSucceed :: "env \<Rightarrow> string \<Rightarrow> string list \<Rightarrow> string option \<Rightarrow> unit io" where
  "execAndSucceed env program args cwd =
     io_bind (io_call (exec env) (Exec program args cwd))
       (\<lambda>exit. if exit \<noteq> 0 then io_throw (ProcessError program exit) else io_return ())"

definition toolExists :: "env \<Rightarrow> string \<Rightarrow> bool io" where
  "toolExists env tool s =
     (case io_call (exec env) (Exec tool [''--help''] None) s of
        (Inr code, s') \<Rightarrow> (Inr (code = 0), s')
      | (Inl err, s') \<Rightarrow> (Inr False, s'))"

definition execWithOutput :: "env \<Rightarrow> string \<Rightarrow> string list \<Rightarrow> string io" where
  "execWithOutput env program args =
     io_bind (io_call (getExecOutput env) (GetExecOutput program args))
       (\<lambda>(exitCode, stdout).
          if exitCode \<noteq> 0 then io_throw (ProcessError program exitCode) else io_return stdout)"

subsection \<open>Workspace resolver, with its metadata query\<close>

text \<open>
  \<^verbatim>\<open>cratePath\<close>, the normalized path hint of line 323, is only written to the debug log;
  the loop compares \<^verbatim>\<open>crate.path\<close>.
\<close>

definition pkgid :: "env \<Rightarrow> CrateArgs \<Rightarrow> CrateDetails io" where
  "pkgid env crate =
     (let cratePath = (if truthy (arg_path crate) then map_option normalize (arg_path crate)
                       else arg_path crate)
      in io_bind (execWithOutput env ''cargo'' [''metadata'', ''--format-version=1''])
           (\<lambda>stdout. case JSON_workspace_members env stdout of
                Inl e \<Rightarrow> io_throw e
              | Inr None \<Rightarrow> io_throw (TypeError ''pkgs is undefined'')
              | Inr (Some pkgs) \<Rightarrow> io_of (pkgid_members (new_URL env) crate pkgs)))"

text \<open>
  The two \<^verbatim>\<open>catch\<close> blocks of \<^verbatim>\<open>findCrate\<close> log a message and throw the error again.
\<close>

definition findCrate :: "env \<Rightarrow> CrateArgs \<Rightarrow> CrateDetails io" where
  "findCrate env crate =
     (if \<not> truthy (arg_name crate) \<and> \<not> truthy (arg_path crate)
        then pkgid env \<lparr>arg_name = None, arg_path = None\<rparr>
      else if truthy (arg_name crate) \<and> \<not> truthy (arg_path crate)
        then pkgid env \<lparr>arg_name = arg_name crate, arg_path = None\<rparr>
      else if \<not> truthy (arg_name crate) \<and> truthy (arg_path crate)
        then pkgid env \<lparr>arg_name = None, arg_path = arg_path crate\<rparr>
      else pkgid env \<lparr>arg_name = arg_name crate, arg_path = arg_path crate\<rparr>)"

subsection \<open>Git and the host API\<close>

definition setGithubUser :: "env \<Rightarrow> Git \<Rightarrow> unit io" where
  "setGithubUser env git =
     io_bind (execAndSucceed env ''git'' [''config'', ''user.name'', git_name git] None)
       (\<lambda>_. execAndSucceed env ''git'' [''config'', ''user.email'', git_email git] None)"

definition getDefaultBranch :: "env \<Rightarrow> string io" where
  "getDefaultBranch env = io_call (request env) GetRepo"

text \<open>\<^verbatim>\<open>[branchPrefix, version].join(branchSeparator)\<close> of two strings.\<close>

definition makeBranch :: "env \<Rightarrow> string \<Rightarrow> Git \<Rightarrow> string io" where
  "makeBranch env version' git =
     (let branchName = branchPrefix git @ branchSeparator git @ version'
      in io_bind (execAndSucceed env ''git'' [''switch'', ''-c'', branchName] None)
           (\<lambda>_. io_bind (setOutput ''pr-branch'' branchName) (\<lambda>_. io_return branchName)))"

definition pushBranch :: "env \<Rightarrow> string \<Rightarrow> unit io" where
  "pushBranch env branchName = execAndSucceed env ''git'' [''push'', ''origin'', branchName] None"

subsection \<open>Release driver\<close>

text \<open>Lines 133 to 144 of \<^verbatim>\<open>runCargoRelease\<close>: install the tool when it is missing.\<close>

definition installCargoRelease :: "env \<Rightarrow> unit io" where
  "installCargoRelease env =
     io_bind (toolExists env ''cargo-release'')
       (\<lambda>found.
          if \<not> found then
            io_bind (toolExists env ''cargo-binstall'')
              (\<lambda>binstall.
                 if binstall
                 then execAndSucceed env ''cargo'' [''binstall'', ''cargo-release''] None
                 else execAndSucceed env ''cargo'' [''install'', ''cargo-release''] None)
          else io_return ())"

text \<open>The argument list of lines 149 to 163.\<close>

definition cargoReleaseArgs :: "string \<Rightarrow> string \<Rightarrow> string list" where
  "cargoReleaseArgs branchName version' =
     [''release'', ''--execute'', ''--no-push'', ''--no-tag'', ''--no-publish'', ''--no-confirm'',
      ''--verbose'', ''--allow-branch'', branchName, ''--dependent-version'', ''upgrade'', version']"

definition runCargoRelease :: "env \<Rightarrow> CrateDetails \<Rightarrow> string \<Rightarrow> string \<Rightarrow> string io" where
  "runCargoRelease env crate version' branchName =
     io_bind (installCargoRelease env)
       (\<lambda>_. io_bind (execAndSucceed env ''cargo'' (cargoReleaseArgs branchName version')
                       (Some (path crate)))
       (\<lambda>_. io_bind (pkgid env \<lparr>arg_name = Some (name crate), arg_path = Some (path crate)\<rparr>)
       (\<lambda>resolved.
          let newVersion = version resolved
          in if newVersion = version crate
             then io_throw (Error ''New and old versions are identical, not proceeding'')
             else io_bind (setOutput ''version'' newVersion) (\<lambda>_. io_return newVersion))))"

subsection \<open>Template renderer\<close>

text \<open>The variables of lines 191 to 203, before \<^verbatim>\<open>title\<close> is added.\<close>

definition templateVars :: "Inputs \<Rightarrow> CrateDetails \<Rightarrow> string \<Rightarrow> string \<Rightarrow> TemplateVars" where
  "templateVars inputs crate branchName newVersion =
     \<lparr>vars_pr = inputs_pr inputs,
      vars_crate = \<lparr>crate_name = name crate, crate_path = path crate\<rparr>,
      vars_version = \<lparr>previous = version crate, actual = newVersion,
                      desired = inputs_version inputs\<rparr>,
      vars_branchName = branchName,
      vars_title = None\<rparr>"

text \<open>
  Lines 213 to 227 of \<^verbatim>\<open>makePR\<close>: the source of the body template. The test
  \<^verbatim>\<open>!template?.trim().length\<close> holds for an absent template and for one that is empty
  after trimming.
\<close>

definition bodyTemplate :: "env \<Rightarrow> PR \<Rightarrow> string io" where
  "bodyTemplate env pr =
     io_bind
       (case pr_templateFile pr of
          None \<Rightarrow> io_return (pr_template pr)
        | Some file \<Rightarrow>
            if file \<noteq> []
            then io_bind (io_call (readFile env) (ReadFile file)) (\<lambda>contents. io_return (Some contents))
            else io_return (pr_template pr))
       (\<lambda>template.
          case template of
            None \<Rightarrow> io_call (readFile env) (ReadFile (join (dirname env) ''default-template.ejs''))
          | Some t \<Rightarrow>
              if length (trim t) = 0
              then io_call (readFile env) (ReadFile (join (dirname env) ''default-template.ejs''))
              else io_return t)"

definition makePR ::
  "env \<Rightarrow> Inputs \<Rightarrow> CrateDetails \<Rightarrow> string \<Rightarrow> string \<Rightarrow> string \<Rightarrow> unit io" where
  "makePR env inputs crate baseBranch branchName newVersion =
     (let pr = inputs_pr inputs;
          vars = templateVars inputs crate branchName newVersion
      in io_bind (io_of (ejs_render env (pr_title pr) vars))
           (\<lambda>rendered_title.
              io_bind (bodyTemplate env pr)
                (\<lambda>template.
                   io_bind (io_of (ejs_render env template (vars\<lparr>vars_title := Some rendered_title\<rparr>)))
                     (\<lambda>body.
                        io_bind (io_call (request env)
                                   (CreatePull rendered_title body branchName baseBranch
                                      (pr_modifiable pr) (pr_draft pr)))
                          (\<lambda>url. setOutput ''pr-url'' url)))))"

subsection \<open>The run\<close>

text \<open>
  The body of the \<^verbatim>\<open>try\<close> block of lines 20 to 45 and, in \<^verbatim>\<open>main\<close>, its \<^verbatim>\<open>catch\<close>:
  the error goes to \<^verbatim>\<open>setFailed\<close>.
\<close>

definition run :: "env \<Rightarrow> unit io" where
  "run env =
     io_bind (io_of (getInputs env))
       (\<lambda>inputs. io_bind (setGithubUser env (inputs_git inputs))
       (\<lambda>_. io_bind (case inputs_baseBranch inputs of
                        None \<Rightarrow> getDefaultBranch env
                      | Some b \<Rightarrow> if b \<noteq> [] then io_return b else getDefaultBranch env)
       (\<lambda>baseBranch. io_bind (makeBranch env (inputs_version inputs) (inputs_git inputs))
       (\<lambda>branchName. io_bind (findCrate env (inputs_crate inputs))
       (\<lambda>crate. io_bind (runCargoRelease env crate (inputs_version inputs) branchName)
       (\<lambda>newVersion. io_bind (pushBranch env branchName)
       (\<lambda>_. makePR env inputs crate baseBranch branchName newVersion)))))))"

definition main :: "env \<Rightarrow> call list" where
  "main env = (case run env [] of (Inl e, s) \<Rightarrow> s @ [SetFailed e] | (Inr _, s) \<Rightarrow> s)"


section \<open>A concrete environment for examples\<close>

text \<open>
  A fragment of the ejs template language, enough for the default title template:
  literal text and output tags \<^verbatim>\<open><%= x %>\<close> where \<^verbatim>\<open>x\<close> is one of the string variables
  of \<^verbatim>\<open>TemplateVars\<close>. The value is escaped as ejs escapes it. A variable that is not
  in scope is an error, and so is any other tag.
\<close>

definition escapeXML :: "string \<Rightarrow> string" where
  "escapeXML s =
     concat (map (\<lambda>c. if c = CHR ''&'' then ''&amp;''
                       else if c = CHR ''<'' then ''&lt;''
                       else if c = CHR ''>'' then ''&gt;''
                       else if c = CHR 0x22 then ''&#34;''
                       else if c = CHR 0x27 then ''&#39;''
                       else [c]) s)"

definition ejs_variable :: "TemplateVars \<Rightarrow> string \<Rightarrow> string option" where
  "ejs_variable vars x =
     (if x = ''crate.name'' then Some (crate_name (vars_crate vars))
      else if x = ''crate.path'' then Some (crate_path (vars_crate vars))
      else if x = ''version.previous'' then Some (previous (vars_version vars))
      else if x = ''version.actual'' then Some (actual (vars_version vars))
      else if x = ''version.desired'' then Some (desired (vars_version vars))
      else if x = ''branchName'' then Some (vars_branchName vars)
      else if x = ''pr.title'' then Some (pr_title (vars_pr vars))
      else if x = ''title'' then vars_title vars
      else None)"

text \<open>The position of the first \<^verbatim>\<open>%>\<close> in a string.\<close>

fun close_index :: "string \<Rightarrow> nat option" where
  "close_index [] = None"
| "close_index [c] = None"
| "close_index (c # d # cs) =
     (if c = CHR ''%'' \<and> d = CHR ''>'' then Some 0
      else map_option Suc (close_index (d # cs)))"

function ejs_fragment :: "string \<Rightarrow> TemplateVars \<Rightarrow> error + string" where
  "ejs_fragment t vars =
     (if take 3 t = ''<%='' then
        (case close_index (drop 3 t) of
           None \<Rightarrow> Inl (Error ''Could not find matching close tag'')
         | Some i \<Rightarrow>
             (case ejs_variable vars (trim (take i (drop 3 t))) of
                None \<Rightarrow> Inl (Error (trim (take i (drop 3 t)) @ '' is not defined''))
              | Some v \<Rightarrow>
                  (case ejs_fragment (drop (i + 5) t) vars of
                     Inl e \<Rightarrow> Inl e
                   | Inr out \<Rightarrow> Inr (escapeXML v @ out))))
      else if take 2 t = ''<%'' then Inl (Error ''tag outside the fragment'')
      else (case t of
              [] \<Rightarrow> Inr []
            | c # cs \<Rightarrow> (case ejs_fragment cs vars of Inl e \<Rightarrow> Inl e | Inr out \<Rightarrow> Inr (c # out))))"
  by pat_completeness auto
termination
proof (relation "measure (\<lambda>(t, vars). length t)")
  fix t :: string and i :: nat
  assume "take 3 t = ''<%=''"
  then have "t \<noteq> []" by auto
  then show "((drop (i + 5) t, vars), (t, vars)) \<in> measure (\<lambda>(t, vars). length t)" for vars :: TemplateVars
    by simp
qed auto

definition is_cargo_release :: "call \<Rightarrow> bool" where
  "is_cargo_release c =
     (case c of Exec program args cwd \<Rightarrow> program = ''cargo'' \<and> take 1 args = [''release'']
      | _ \<Rightarrow> False)"

text \<open>
  An environment for examples: every program exits with 0; the metadata query prints
  one text before the version bump and another one after it, which parse to the two
  given listings; files are given by a function; the host answers with the default
  branch \<^verbatim>\<open>main\<close> and with a pull request URL.
\<close>

definition example_env ::
  "Inputs \<Rightarrow> (string \<Rightarrow> error + string) \<Rightarrow> string list \<Rightarrow> string list \<Rightarrow> env" where
  "example_env inputs files members_before members_after =
     \<lparr>new_URL = plain_URL,
      ejs_render = ejs_fragment,
      JSON_workspace_members =
        (\<lambda>stdout. if stdout = ''after'' then Inr (Some members_after)
                   else Inr (Some members_before)),
      exec = (\<lambda>s. Inr 0),
      getExecOutput = (\<lambda>s. Inr (0, if list_ex is_cargo_release s then ''after'' else ''before'')),
      readFile = (\<lambda>s. case last s of ReadFile file \<Rightarrow> files file
                      | _ \<Rightarrow> Inl (Rejected ''not a file'')),
      request = (\<lambda>s. case last s of GetRepo \<Rightarrow> Inr ''main''
                     | _ \<Rightarrow> Inr ''https://github.com/o/r/pull/1''),
      getInputs = Inr inputs,
      dirname = ''/action/dist''\<rparr>"


text \<open>Inputs with the defaults of \<^verbatim>\<open>action.yml\<close>, the version keyword \<^verbatim>\<open>patch\<close> and no crate hint.\<close>

definition example_inputs :: Inputs where
  "example_inputs =
     \<lparr>inputs_githubToken = ''token'',
      inputs_baseBranch = None,
      inputs_version = ''patch'',
      inputs_crate = \<lparr>arg_name = None, arg_path = None\<rparr>,
      inputs_pr = \<lparr>pr_title = ''release: <%= crate.name %> v<%= version.actual %>'',
                    pr_label = None, pr_draft = False, pr_modifiable = True,
                    pr_template = None, pr_templateFile = None,
                    pr_mergeStrategy = ''squash'', pr_releaseNotes = False\<rparr>,
      inputs_git = \<lparr>git_name = ''github-actions'', git_email = ''github-actions@github.com'',
                     branchPrefix = ''release'', branchSeparator = ''/''\<rparr>\<rparr>"

text \<open>Files for examples: the default template of the action and a blank template.\<close>

definition example_files :: "string \<Rightarrow> error + string" where
  "example_files file =
     (if file = ''/action/dist/default-template.ejs'' then Inr ''Release <%= title %>''
      else if file = ''blank.ejs'' then Inr ''  ''
      else if file = ''body.ejs'' then Inr ''From <%= branchName %>''
      else Inl (Rejected ''ENOENT''))"

declare ejs_fragment.simps [simp del]

section \<open>Notions used to state the properties\<close>

text \<open>
  The invariant of the data model (section 3 of the spec), relative to the files that
  exist: the version is not empty and the directory of the path holds a manifest.
\<close>

definition valid_PackageDetails :: "(string \<Rightarrow> bool) \<Rightarrow> CrateDetails \<Rightarrow> bool" where
  "valid_PackageDetails is_file d = (version d \<noteq> [] \<and> is_file (join (path d) ''Cargo.toml''))"

text \<open>The file system with no file at all.\<close>

definition no_files :: "string \<Rightarrow> bool" where
  "no_files file = False"

text \<open>Every call that a computation adds to the calls so far satisfies \<open>P\<close>.\<close>

definition appends :: "(call \<Rightarrow> bool) \<Rightarrow> 'a io \<Rightarrow> bool" where
  "appends P m = (\<forall>s. \<exists>ext. snd (m s) = s @ ext \<and> list_all P ext)"

text \<open>
  A call that is either no run of \<^verbatim>\<open>cargo release\<close> or the one for the given branch and
  version.
\<close>

definition only_release :: "string \<Rightarrow> string \<Rightarrow> call \<Rightarrow> bool" where
  "only_release b v c =
     (case c of
        Exec program args cwd \<Rightarrow>
          \<not> (program = ''cargo'' \<and> take 1 args = [''release'']) \<or> args = cargoReleaseArgs b v
      | _ \<Rightarrow> True)"

section \<open>The member grammar and the loop over the members\<close>

lemma match_member_shape:
  assumes "match_member pkg = Some (n, v, u)"
  shows "n \<noteq> [] \<and> v \<noteq> [] \<and> list_all nonspace n \<and> list_all nonspace v
         \<and> (\<exists>m. m \<noteq> [] \<and> u = ''file://'' @ m
                \<and> pkg = n @ '' '' @ v @ '' (path+file://'' @ m @ '')'')"
proof -
  define r1 where "r1 = dropWhile nonspace pkg"
  define r2 where "r2 = dropWhile nonspace (drop 1 r1)"
  define r3 where "r3 = drop 14 r2"
  from assms have c: "takeWhile nonspace pkg \<noteq> []" "take 1 r1 = '' ''"
    "takeWhile nonspace (drop 1 r1) \<noteq> []" "take 14 r2 = '' (path+file://''"
    "\<not> length r3 < 2" "last r3 = CHR '')''"
    and r: "n = takeWhile nonspace pkg" "v = takeWhile nonspace (drop 1 r1)"
       "u = ''file://'' @ butlast r3"
    unfolding match_member_def Let_def r1_def r2_def r3_def
    by (auto split: if_splits)
  have p1: "pkg = n @ r1" by (simp add: r r1_def)
  have p2: "r1 = take 1 r1 @ drop 1 r1" by simp
  have p3: "drop 1 r1 = v @ r2" by (simp add: r r2_def)
  have p4: "r2 = take 14 r2 @ r3" by (simp add: r3_def)
  have "r3 \<noteq> []" using c(5) by auto
  then have p5: "r3 = butlast r3 @ '')''" using c(6)
    by (metis append_butlast_last_id)
  have ne: "butlast r3 \<noteq> []" using c(5) by (cases r3) (auto split: if_splits)
  have whole: "pkg = n @ '' '' @ v @ '' (path+file://'' @ butlast r3 @ '')''"
    using p1 p2 p3 p4 p5 c(2) c(4) by (metis append_assoc)
  have nv: "list_all nonspace n" "list_all nonspace v"
    unfolding r list_all_iff by (auto dest: set_takeWhileD)
  have "\<exists>m. m \<noteq> [] \<and> u = ''file://'' @ m
          \<and> pkg = n @ '' '' @ v @ '' (path+file://'' @ m @ '')''"
    using ne r(3) whole by (intro exI[of _ "butlast r3"]) simp
  moreover have "n \<noteq> []" "v \<noteq> []" using c(1,3) r(1,2) by simp_all
  ultimately show ?thesis using nv by simp
qed

lemma parseWorkspacePkg_malformed:
  "\<not> matches_grammar pkg \<Longrightarrow> parseWorkspacePkg URL pkg = Inr None"
  by (cases "match_member pkg") (simp_all add: parseWorkspacePkg_def matches_grammar_def)

lemma parseWorkspacePkg_Some:
  assumes "parseWorkspacePkg URL pkg = Inr (Some d)"
  shows "\<exists>u x. match_member pkg = Some (name d, version d, u) \<and> URL u = Inr x
           \<and> protocol x = ''file:'' \<and> path d = normalize (pathname x)"
  using assms unfolding parseWorkspacePkg_def
  by (auto split: option.splits sum.splits if_splits)

lemma pkgid_loop_found:
  assumes "pkgid_loop URL crate pkgs = Inr (Some d)"
  shows "\<exists>before pkg after. pkgs = before @ pkg # after
           \<and> parseWorkspacePkg URL pkg = Inr (Some d)
           \<and> ((truthy (arg_name crate) \<and> arg_name crate = Some (name d))
                \<or> (truthy (arg_path crate) \<and> arg_path crate = Some (path d)))
           \<and> (\<forall>q \<in> set before. parseWorkspacePkg URL q = Inr None
                  \<or> (\<exists>d'. parseWorkspacePkg URL q = Inr (Some d')
                       \<and> \<not> ((truthy (arg_name crate) \<and> arg_name crate = Some (name d'))
                        \<or> (truthy (arg_path crate) \<and> arg_path crate = Some (path d')))))"
  using assms
proof (induction pkgs)
  case Nil
  then show ?case by simp
next
  case (Cons q qs)
  let ?M = "\<lambda>d. (truthy (arg_name crate) \<and> arg_name crate = Some (name d))
                \<or> (truthy (arg_path crate) \<and> arg_path crate = Some (path d))"
  let ?skip = "\<lambda>q. parseWorkspacePkg URL q = Inr None
                  \<or> (\<exists>d'. parseWorkspacePkg URL q = Inr (Some d') \<and> \<not> ?M d')"
  show ?case
  proof (cases "?skip q")
    case True
    then have "pkgid_loop URL crate (q # qs) = pkgid_loop URL crate qs"
      by auto
    then have "pkgid_loop URL crate qs = Inr (Some d)" using Cons.prems by simp
    then obtain before pkg after where b: "qs = before @ pkg # after"
        "parseWorkspacePkg URL pkg = Inr (Some d)" "?M d" "\<forall>q \<in> set before. ?skip q"
      using Cons.IH by blast
    have "q # qs = (q # before) @ pkg # after" using b(1) by simp
    moreover have "\<forall>x \<in> set (q # before). ?skip x" using b(4) True by simp
    ultimately show ?thesis using b(2,3) by blast
  next
    case False
    then have here: "parseWorkspacePkg URL q = Inr (Some d)" "?M d"
      using Cons.prems by (auto split: sum.splits option.splits if_splits)
    have "q # qs = [] @ q # qs" by simp
    moreover have "\<forall>x \<in> set []. ?skip x" by simp
    ultimately show ?thesis using here by blast
  qed
qed

lemma pkgid_loop_first:
  assumes "parseWorkspacePkg URL pkg = Inr (Some d)"
      and "(truthy (arg_name crate) \<and> arg_name crate = Some (name d))
                \<or> (truthy (arg_path crate) \<and> arg_path crate = Some (path d))"
      and "\<forall>q \<in> set before. parseWorkspacePkg URL q = Inr None
              \<or> (\<exists>d'. parseWorkspacePkg URL q = Inr (Some d')
                    \<and> \<not> ((truthy (arg_name crate) \<and> arg_name crate = Some (name d'))
                        \<or> (truthy (arg_path crate) \<and> arg_path crate = Some (path d'))))"
  shows "pkgid_loop URL crate (before @ pkg # after) = Inr (Some d)"
  using assms(3)
proof (induction before)
  case Nil
  then show ?case using assms(1,2) by simp
next
  case (Cons q qs)
  then show ?case by auto
qed

lemma pkgid_loop_filter:
  "pkgid_loop URL crate (filter matches_grammar pkgs) = pkgid_loop URL crate pkgs"
  by (induction pkgs) (auto simp: parseWorkspacePkg_malformed split: sum.splits option.splits)

section \<open>Properties of the workspace resolver\<close>

lemma pkgid_members_hint:
  "truthy (arg_name crate) \<or> truthy (arg_path crate) \<Longrightarrow>
   pkgid_members URL crate pkgs =
     (case pkgid_loop URL crate pkgs of
        Inl e \<Rightarrow> Inl e
      | Inr (Some parsed) \<Rightarrow> Inr parsed
      | Inr None \<Rightarrow> Inl (Error ''no matching crate found''))"
  by (simp add: pkgid_members_def)

lemma pkgid_members_hint_Inr:
  "truthy (arg_name crate) \<or> truthy (arg_path crate) \<Longrightarrow>
   pkgid_members URL crate pkgs = Inr d \<longleftrightarrow> pkgid_loop URL crate pkgs = Inr (Some d)"
  by (simp add: pkgid_members_hint split: sum.splits option.splits)

lemma pkgid_members_no_hint:
  "\<not> truthy (arg_name crate) \<Longrightarrow> \<not> truthy (arg_path crate) \<Longrightarrow>
   pkgid_members URL crate pkgs =
     (if length pkgs = 1 then
        (case parseWorkspacePkg URL (pkgs ! 0) of
           Inl e \<Rightarrow> Inl e
         | Inr None \<Rightarrow> Inl (Error ''no good crate found'')
         | Inr (Some parsed) \<Rightarrow> Inr parsed)
      else Inl (Error ''no matching crate found''))"
  by (simp add: pkgid_members_def)




text \<open>
  Claim C5. With both hints given, resolution returns the first member in listed order
  whose name equals the name hint or whose path equals the path hint: a member with
  only such members (or skipped strings) before it is the result, and every result is
  of this kind. That the two hints may match different members is not an error, as
  the example after the theorem shows.
\<close>

theorem pkgid_both_hints_first_match:
  assumes "n \<noteq> []" and "p \<noteq> []"
  shows "(parseWorkspacePkg URL pkg = Inr (Some d) \<and> (n = name d \<or> p = path d)
          \<and> (\<forall>q \<in> set before. parseWorkspacePkg URL q = Inr None
                \<or> (\<exists>d'. parseWorkspacePkg URL q = Inr (Some d') \<and> n \<noteq> name d' \<and> p \<noteq> path d'))
          \<longrightarrow> pkgid_members URL \<lparr>arg_name = Some n, arg_path = Some p\<rparr> (before @ pkg # after) = Inr d)
       \<and> (pkgid_members URL \<lparr>arg_name = Some n, arg_path = Some p\<rparr> pkgs = Inr d
          \<longrightarrow> (\<exists>before pkg after. pkgs = before @ pkg # after
                 \<and> parseWorkspacePkg URL pkg = Inr (Some d) \<and> (n = name d \<or> p = path d)
                 \<and> (\<forall>q \<in> set before. parseWorkspacePkg URL q = Inr None
                      \<or> (\<exists>d'. parseWorkspacePkg URL q = Inr (Some d')
                            \<and> n \<noteq> name d' \<and> p \<noteq> path d'))))"
proof (intro conjI impI)
  let ?c = "\<lparr>arg_name = Some n, arg_path = Some p\<rparr>"
  have t: "truthy (arg_name ?c) \<or> truthy (arg_path ?c)" using assms by simp
  {
    assume a: "parseWorkspacePkg URL pkg = Inr (Some d) \<and> (n = name d \<or> p = path d)
          \<and> (\<forall>q \<in> set before. parseWorkspacePkg URL q = Inr None
                \<or> (\<exists>d'. parseWorkspacePkg URL q = Inr (Some d') \<and> n \<noteq> name d' \<and> p \<noteq> path d'))"
    have "pkgid_loop URL ?c (before @ pkg # after) = Inr (Some d)"
      by (rule pkgid_loop_first) (use a assms in simp_all)
    then show "pkgid_members URL ?c (before @ pkg # after) = Inr d"
      using t by (simp only: pkgid_members_hint_Inr)
  }
  {
    assume "pkgid_members URL ?c pkgs = Inr d"
    then have "pkgid_loop URL ?c pkgs = Inr (Some d)"
      using t by (simp only: pkgid_members_hint_Inr)
    from pkgid_loop_found [OF this]
    show "\<exists>before pkg after. pkgs = before @ pkg # after
                 \<and> parseWorkspacePkg URL pkg = Inr (Some d) \<and> (n = name d \<or> p = path d)
                 \<and> (\<forall>q \<in> set before. parseWorkspacePkg URL q = Inr None
                      \<or> (\<exists>d'. parseWorkspacePkg URL q = Inr (Some d')
                            \<and> n \<noteq> name d' \<and> p \<noteq> path d'))"
      using assms by simp
  }
qed

theorem pkgid_both_hints_first_match_witness:
  "pkgid_members plain_URL \<lparr>arg_name = Some ''b'', arg_path = Some ''/ws/a''\<rparr>
      [''c 3.0.0 (path+file:///ws/c)'', ''a 1.0.0 (path+file:///ws/a)'', ''b 2.0.0 (path+file:///ws/b)'']
     = Inr \<lparr>name = ''a'', path = ''/ws/a'', version = ''1.0.0''\<rparr>"
proof -
  have h: "''b'' \<noteq> []" "''/ws/a'' \<noteq> []" by simp_all
  have pa: "parseWorkspacePkg plain_URL ''a 1.0.0 (path+file:///ws/a)''
             = Inr (Some \<lparr>name = ''a'', path = ''/ws/a'', version = ''1.0.0''\<rparr>)"
    by code_simp
  have pc: "parseWorkspacePkg plain_URL ''c 3.0.0 (path+file:///ws/c)''
             = Inr (Some \<lparr>name = ''c'', path = ''/ws/c'', version = ''3.0.0''\<rparr>)"
    by code_simp
  show ?thesis
    using pkgid_both_hints_first_match [OF h, of plain_URL "''a 1.0.0 (path+file:///ws/a)''"
        "\<lparr>name = ''a'', path = ''/ws/a'', version = ''1.0.0''\<rparr>"
        "[''c 3.0.0 (path+file:///ws/c)'']" "[''b 2.0.0 (path+file:///ws/b)'']"] pa pc
    by simp
qed


text \<open>
  Claim C6 fails without a hint: the listing below has one well-formed and one
  malformed member string, and resolution does not return the well-formed member,
  because the branch for no hint counts the strings of the listing.
\<close>

theorem pkgid_malformed_no_hint_counterexample:
  "parseWorkspacePkg plain_URL ''pkg 1.0.0 (path+file:///ws/pkg)''
     = Inr (Some \<lparr>name = ''pkg'', path = ''/ws/pkg'', version = ''1.0.0''\<rparr>)
   \<and> parseWorkspacePkg plain_URL ''pkg-1.0.0'' = Inr None
   \<and> pkgid_members plain_URL \<lparr>arg_name = None, arg_path = None\<rparr>
        [''pkg 1.0.0 (path+file:///ws/pkg)'', ''pkg-1.0.0'']
       = Inl (Error ''no matching crate found'')"
  by code_simp

text \<open>
  Claim C6, amended. A member string that does not match the grammar is skipped, and
  when a name or a path hint is given resolution yields what it yields on the listing
  without the malformed strings. With no hint, any listing that does not have exactly
  one string fails, malformed strings included in the count.
\<close>

theorem pkgid_skips_malformed:
  "(\<not> matches_grammar pkg \<longrightarrow> parseWorkspacePkg URL pkg = Inr None)
   \<and> (truthy (arg_name crate) \<or> truthy (arg_path crate) \<longrightarrow>
        pkgid_members URL crate pkgs = pkgid_members URL crate (filter matches_grammar pkgs))
   \<and> (\<not> truthy (arg_name crate) \<and> \<not> truthy (arg_path crate) \<and> length pkgs \<noteq> 1 \<longrightarrow>
        pkgid_members URL crate pkgs = Inl (Error ''no matching crate found''))"
  by (simp add: parseWorkspacePkg_malformed pkgid_members_hint pkgid_loop_filter
        pkgid_members_no_hint)

theorem pkgid_skips_malformed_witness:
  "\<not> matches_grammar ''pkg-1.0.0''
   \<and> pkgid_members plain_URL \<lparr>arg_name = Some ''pkg'', arg_path = None\<rparr>
        [''pkg-1.0.0'', ''pkg 1.0.0 (path+file:///ws/pkg)'']
     = Inr \<lparr>name = ''pkg'', path = ''/ws/pkg'', version = ''1.0.0''\<rparr>
   \<and> pkgid_members plain_URL \<lparr>arg_name = None, arg_path = None\<rparr>
        [''pkg-1.0.0'', ''pkg 1.0.0 (path+file:///ws/pkg)'']
     = Inl (Error ''no matching crate found'')"
proof -
  have m: "\<not> matches_grammar ''pkg-1.0.0''" by code_simp
  have f: "filter matches_grammar [''pkg-1.0.0'', ''pkg 1.0.0 (path+file:///ws/pkg)'']
            = [''pkg 1.0.0 (path+file:///ws/pkg)'']"
    by code_simp
  have r: "pkgid_members plain_URL \<lparr>arg_name = Some ''pkg'', arg_path = None\<rparr>
             [''pkg 1.0.0 (path+file:///ws/pkg)'']
           = Inr \<lparr>name = ''pkg'', path = ''/ws/pkg'', version = ''1.0.0''\<rparr>"
    by code_simp
  show ?thesis
    using pkgid_skips_malformed [of "''pkg-1.0.0''" plain_URL
        "\<lparr>arg_name = Some ''pkg'', arg_path = None\<rparr>"
        "[''pkg-1.0.0'', ''pkg 1.0.0 (path+file:///ws/pkg)'']"]
      pkgid_skips_malformed [of "''pkg-1.0.0''" plain_URL
        "\<lparr>arg_name = None, arg_path = None\<rparr>"
        "[''pkg-1.0.0'', ''pkg 1.0.0 (path+file:///ws/pkg)'']"]
      m f r
    by simp
qed

text \<open>
  The strings that reach the URL constructor: the grammar admits only \<^verbatim>\<open>path+file://\<close>, so
  a member string \<^verbatim>\<open>name version (path+url)\<close> whose URL does not begin with \<^verbatim>\<open>file://\<close>
  is skipped like any malformed string before the protocol is looked at.
\<close>

lemma take7_file:
  assumes "take 7 (u @ '')'') = ''file://''"
  shows "take 7 u = ''file://''"
proof (cases "7 \<le> length u")
  case True
  then show ?thesis using assms by simp
next
  case False
  then have "take 7 (u @ '')'') = u @ '')''" by simp
  then have "CHR '')'' \<in> set ''file://''" using assms
    by (metis in_set_conv_decomp)
  then show ?thesis by simp
qed

lemma match_member_non_file:
  assumes "list_all nonspace n" and "list_all nonspace v"
      and "take 7 u \<noteq> ''file://''"
  shows "match_member (n @ '' '' @ v @ '' (path+'' @ u @ '')'') = None"
proof -
  have sp: "\<not> nonspace CHR '' ''" by (simp add: nonspace_def js_space_def)
  have n: "\<forall>c \<in> set n. nonspace c" "\<forall>c \<in> set v. nonspace c"
    using assms(1,2) by (simp_all add: list_all_iff)
  have t1: "dropWhile nonspace (n @ '' '' @ v @ '' (path+'' @ u @ '')'')
              = '' '' @ v @ '' (path+'' @ u @ '')''"
    using n(1) sp by (simp add: dropWhile_append3)
  have t2: "dropWhile nonspace (v @ '' (path+'' @ u @ '')'') = '' (path+'' @ u @ '')''"
    using n(2) sp by (simp add: dropWhile_append3)
  have "take 14 ('' (path+'' @ u @ '')'') \<noteq> '' (path+file://''"
  proof
    assume "take 14 ('' (path+'' @ u @ '')'') = '' (path+file://''"
    then have "take 7 (u @ '')'') = ''file://''" by simp
    then show False using assms(3) take7_file by blast
  qed
  then show ?thesis
    unfolding match_member_def Let_def t1 using t2 by simp
qed

lemma parseWorkspacePkg_non_file_skipped:
  "(list_all nonspace n \<and> list_all nonspace v \<and> take 7 u \<noteq> ''file://'' \<longrightarrow>
      parseWorkspacePkg URL (n @ '' '' @ v @ '' (path+'' @ u @ '')'') = Inr None)
   \<and> (match_member pkg = Some (n', v', u') \<longrightarrow> take 7 u' = ''file://'')"
proof (intro conjI impI)
  assume a: "list_all nonspace n \<and> list_all nonspace v \<and> take 7 u \<noteq> ''file://''"
  have "match_member (n @ '' '' @ v @ '' (path+'' @ u @ '')'') = None"
    by (rule match_member_non_file) (use a in simp_all)
  then show "parseWorkspacePkg URL (n @ '' '' @ v @ '' (path+'' @ u @ '')'') = Inr None"
    by (simp add: parseWorkspacePkg_def)
next
  assume "match_member pkg = Some (n', v', u')"
  from match_member_shape [OF this] show "take 7 u' = ''file://''" by auto
qed

text \<open>
  Claim C7 (a defect of the code). \<^verbatim>\<open>parseWorkspacePkg\<close> holds the fatal check that the
  claim describes, \<^verbatim>\<open>pkgid is returning a non-local crate\<close> (lines 364 and 365), but the
  regular expression of line 355 lets no other scheme than \<^verbatim>\<open>file\<close> through. A member
  whose URL has the scheme \<^verbatim>\<open>https\<close> is therefore skipped, not fatal, and resolution goes
  on to return a later member.
\<close>

theorem pkgid_non_local_member_skipped:
  "parseWorkspacePkg plain_URL ''a 1.0.0 (path+https://example.com/a)'' = Inr None
   \<and> pkgid_members plain_URL \<lparr>arg_name = Some ''b'', arg_path = None\<rparr>
        [''a 1.0.0 (path+https://example.com/a)'', ''b 2.0.0 (path+file:///ws/b)'']
       = Inr \<lparr>name = ''b'', path = ''/ws/b'', version = ''2.0.0''\<rparr>
   \<and> pkgid_members plain_URL \<lparr>arg_name = Some ''a'', arg_path = None\<rparr>
        [''a 1.0.0 (path+https://example.com/a)'', ''b 2.0.0 (path+file:///ws/b)'']
       = Inl (Error ''no matching crate found'')"
  by code_simp

text \<open>
  Claim C8 fails on the file system: resolution returns the path that the metadata
  listing names and never looks at the files, so with no manifest in the directory the
  result is not valid in the sense of the data model.
\<close>

theorem pkgid_unchecked_path_counterexample:
  "pkgid_members plain_URL \<lparr>arg_name = Some ''pkg'', arg_path = None\<rparr>
      [''pkg 1.0.0 (path+file:///gone/pkg)'']
     = Inr \<lparr>name = ''pkg'', path = ''/gone/pkg'', version = ''1.0.0''\<rparr>
   \<and> \<not> valid_PackageDetails no_files
          \<lparr>name = ''pkg'', path = ''/gone/pkg'', version = ''1.0.0''\<rparr>"
  by code_simp

lemma pkgid_members_Inr_parsed:
  assumes "pkgid_members URL crate pkgs = Inr d"
  shows "(\<exists>pkg \<in> set pkgs. parseWorkspacePkg URL pkg = Inr (Some d))
       \<and> (truthy (arg_name crate) \<or> truthy (arg_path crate) \<longrightarrow>
            arg_name crate = Some (name d) \<or> arg_path crate = Some (path d))"
proof (cases "truthy (arg_name crate) \<or> truthy (arg_path crate)")
  case True
  then have "pkgid_loop URL crate pkgs = Inr (Some d)"
    using assms by (simp only: pkgid_members_hint_Inr)
  from pkgid_loop_found [OF this] show ?thesis by auto
next
  case False
  then have "length pkgs = 1 \<and> parseWorkspacePkg URL (pkgs ! 0) = Inr (Some d)"
    using assms by (auto simp: pkgid_members_no_hint split: if_splits sum.splits option.splits)
  then show ?thesis using False by (cases pkgs) auto
qed

text \<open>
  Claim C8, amended. Every result of resolution is the parse of a member string of the
  listing: its name and version are not empty and free of white space, its path is the
  normalized path of a \<^verbatim>\<open>file://\<close> URL, and when a hint is given the name equals the
  name hint or the path equals the path hint. When a hint is given and no parsed
  member has that name or that path, resolution fails.
\<close>

theorem pkgid_result_is_listed_member:
  "(pkgid_members URL crate pkgs = Inr d \<longrightarrow>
      name d \<noteq> [] \<and> version d \<noteq> [] \<and> list_all nonspace (name d) \<and> list_all nonspace (version d)
      \<and> (\<exists>pkg \<in> set pkgs. parseWorkspacePkg URL pkg = Inr (Some d))
      \<and> (\<exists>u x. take 7 u = ''file://'' \<and> URL u = Inr x \<and> path d = normalize (pathname x))
      \<and> (truthy (arg_name crate) \<or> truthy (arg_path crate) \<longrightarrow>
            arg_name crate = Some (name d) \<or> arg_path crate = Some (path d)))
   \<and> ((truthy (arg_name crate) \<or> truthy (arg_path crate))
        \<and> (\<forall>pkg \<in> set pkgs. \<forall>d'. parseWorkspacePkg URL pkg = Inr (Some d') \<longrightarrow>
              arg_name crate \<noteq> Some (name d') \<and> arg_path crate \<noteq> Some (path d'))
        \<longrightarrow> (\<exists>e. pkgid_members URL crate pkgs = Inl e))"
proof (intro conjI impI)
  assume r: "pkgid_members URL crate pkgs = Inr d"
  from pkgid_members_Inr_parsed [OF r] obtain pkg where
    p: "pkg \<in> set pkgs" "parseWorkspacePkg URL pkg = Inr (Some d)"
    and h: "truthy (arg_name crate) \<or> truthy (arg_path crate) \<longrightarrow>
            arg_name crate = Some (name d) \<or> arg_path crate = Some (path d)"
    by blast
  from parseWorkspacePkg_Some [OF p(2)] obtain u x where
    m: "match_member pkg = Some (name d, version d, u)" and
    x: "URL u = Inr x" "path d = normalize (pathname x)"
    by blast
  from match_member_shape [OF m]
  show "name d \<noteq> []" "version d \<noteq> []" "list_all nonspace (name d)"
    "list_all nonspace (version d)"
    by simp_all
  from match_member_shape [OF m] have "take 7 u = ''file://''" by auto
  then show "\<exists>u x. take 7 u = ''file://'' \<and> URL u = Inr x \<and> path d = normalize (pathname x)"
    using x by blast
  show "\<exists>pkg \<in> set pkgs. parseWorkspacePkg URL pkg = Inr (Some d)" using p by blast
  show "arg_name crate = Some (name d) \<or> arg_path crate = Some (path d)"
    if "truthy (arg_name crate) \<or> truthy (arg_path crate)"
    using h that by simp
next
  assume a: "(truthy (arg_name crate) \<or> truthy (arg_path crate))
        \<and> (\<forall>pkg \<in> set pkgs. \<forall>d'. parseWorkspacePkg URL pkg = Inr (Some d') \<longrightarrow>
              arg_name crate \<noteq> Some (name d') \<and> arg_path crate \<noteq> Some (path d'))"
  show "\<exists>e. pkgid_members URL crate pkgs = Inl e"
  proof (cases "pkgid_members URL crate pkgs")
    case (Inl e)
    then show ?thesis by blast
  next
    case (Inr d')
    from pkgid_members_Inr_parsed [OF this] a show ?thesis by blast
  qed
qed

theorem pkgid_result_is_listed_member_witness:
  "version \<lparr>name = ''b'', path = ''/ws/b'', version = ''2.0.0''\<rparr> \<noteq> []
   \<and> (\<exists>e. pkgid_members plain_URL \<lparr>arg_name = Some ''c'', arg_path = None\<rparr>
        [''a 1.0.0 (path+file:///ws/a)'', ''b 2.0.0 (path+file:///ws/b)''] = Inl e)"
proof -
  let ?pkgs = "[''a 1.0.0 (path+file:///ws/a)'', ''b 2.0.0 (path+file:///ws/b)'']"
  have r: "pkgid_members plain_URL \<lparr>arg_name = Some ''b'', arg_path = None\<rparr> ?pkgs
            = Inr \<lparr>name = ''b'', path = ''/ws/b'', version = ''2.0.0''\<rparr>"
    by code_simp
  have pa: "parseWorkspacePkg plain_URL ''a 1.0.0 (path+file:///ws/a)''
             = Inr (Some \<lparr>name = ''a'', path = ''/ws/a'', version = ''1.0.0''\<rparr>)"
    by code_simp
  have pb: "parseWorkspacePkg plain_URL ''b 2.0.0 (path+file:///ws/b)''
             = Inr (Some \<lparr>name = ''b'', path = ''/ws/b'', version = ''2.0.0''\<rparr>)"
    by code_simp
  have none: "(truthy (arg_name \<lparr>arg_name = Some ''c'', arg_path = None\<rparr>)
                 \<or> truthy (arg_path \<lparr>arg_name = Some ''c'', arg_path = None\<rparr>))
        \<and> (\<forall>pkg \<in> set ?pkgs. \<forall>d'. parseWorkspacePkg plain_URL pkg = Inr (Some d') \<longrightarrow>
              arg_name \<lparr>arg_name = Some ''c'', arg_path = None\<rparr> \<noteq> Some (name d')
              \<and> arg_path \<lparr>arg_name = Some ''c'', arg_path = None\<rparr> \<noteq> Some (path d'))"
    using pa pb by auto
  show ?thesis
    using pkgid_result_is_listed_member [of plain_URL "\<lparr>arg_name = Some ''b'', arg_path = None\<rparr>"
        ?pkgs "\<lparr>name = ''b'', path = ''/ws/b'', version = ''2.0.0''\<rparr>"]
      pkgid_result_is_listed_member [of plain_URL "\<lparr>arg_name = Some ''c'', arg_path = None\<rparr>"
        ?pkgs "\<lparr>name = ''b'', path = ''/ws/b'', version = ''2.0.0''\<rparr>"]
      r none
    by blast
qed

text \<open>
  Claim C1 (a defect of the code). \<^verbatim>\<open>pkgid\<close> computes the normalized path hint and
  then compares the hint as given: the path \<^verbatim>\<open>/ws/./pkg\<close> normalizes to \<^verbatim>\<open>/ws/pkg\<close>,
  the normalized form resolves to the member, and the form with the redundant
  segment resolves to nothing.
\<close>

theorem pkgid_path_hint_not_normalized:
  "normalize ''/ws/./pkg'' = ''/ws/pkg''
   \<and> pkgid_members plain_URL \<lparr>arg_name = None, arg_path = Some ''/ws/pkg''\<rparr>
        [''pkg 1.0.0 (path+file:///ws/pkg)'']
       = Inr \<lparr>name = ''pkg'', path = ''/ws/pkg'', version = ''1.0.0''\<rparr>
   \<and> pkgid_members plain_URL \<lparr>arg_name = None, arg_path = Some ''/ws/./pkg''\<rparr>
        [''pkg 1.0.0 (path+file:///ws/pkg)'']
       = Inl (Error ''no matching crate found'')"
  by code_simp

section \<open>Properties of the release driver and of the renderer\<close>

lemma io_bind_Inr:
  "m s = (Inr x, s') \<Longrightarrow> io_bind m f s = f x s'"
  by (simp add: io_bind_def)

lemma io_bind_Inl:
  "m s = (Inl e, s') \<Longrightarrow> io_bind m f s = (Inl e, s')"
  by (simp add: io_bind_def)

lemma io_bind_success:
  assumes "io_bind m f s = (Inr y, s')"
  shows "\<exists>x s1. m s = (Inr x, s1) \<and> f x s1 = (Inr y, s')"
proof (cases "m s")
  case (Pair r s1)
  then show ?thesis using assms by (cases r) (simp_all add: io_bind_def)
qed

lemma execAndSucceed_eq:
  "execAndSucceed env program args cwd s =
     (case exec env (s @ [Exec program args cwd]) of
        Inl e \<Rightarrow> (Inl e, s @ [Exec program args cwd])
      | Inr exit \<Rightarrow> (if exit \<noteq> 0 then Inl (ProcessError program exit) else Inr (),
                      s @ [Exec program args cwd]))"
  by (simp add: execAndSucceed_def io_bind_def io_call_def io_throw_def io_return_def
        split: sum.splits)

text \<open>
  Claim C2. When the tool is available (or was installed), the versioning tool exits
  with 0 and the package is resolved again, the release fails with
  \<^verbatim>\<open>New and old versions are identical, not proceeding\<close> if the version found is the one
  from before the bump, and otherwise returns the version found. Every value returned
  is the version of that second resolution and differs from the old version; the
  requested version only appears among the arguments of the tool.
\<close>

theorem runCargoRelease_confirmed_version:
  "(installCargoRelease env s = (Inr (), s0)
      \<and> exec env (s0 @ [Exec ''cargo'' (cargoReleaseArgs branchName requested) (Some (path crate))]) = Inr 0
      \<and> pkgid env \<lparr>arg_name = Some (name crate), arg_path = Some (path crate)\<rparr>
           (s0 @ [Exec ''cargo'' (cargoReleaseArgs branchName requested) (Some (path crate))])
          = (Inr d, s2)
    \<longrightarrow> runCargoRelease env crate requested branchName s =
          (if version d = version crate
           then (Inl (Error ''New and old versions are identical, not proceeding''), s2)
           else (Inr (version d), s2 @ [SetOutput ''version'' (version d)])))
   \<and> (runCargoRelease env crate requested branchName s = (Inr confirmed, s') \<longrightarrow>
        confirmed \<noteq> version crate
        \<and> (\<exists>s0 s2 d. installCargoRelease env s = (Inr (), s0)
             \<and> exec env (s0 @ [Exec ''cargo'' (cargoReleaseArgs branchName requested)
                                  (Some (path crate))]) = Inr 0
             \<and> pkgid env \<lparr>arg_name = Some (name crate), arg_path = Some (path crate)\<rparr>
                  (s0 @ [Exec ''cargo'' (cargoReleaseArgs branchName requested) (Some (path crate))])
                 = (Inr d, s2)
             \<and> confirmed = version d
             \<and> s' = s2 @ [SetOutput ''version'' confirmed]))"
proof (intro conjI impI)
  let ?rel = "Exec ''cargo'' (cargoReleaseArgs branchName requested) (Some (path crate))"
  let ?hint = "\<lparr>arg_name = Some (name crate), arg_path = Some (path crate)\<rparr>"
  {
    assume a: "installCargoRelease env s = (Inr (), s0)
      \<and> exec env (s0 @ [?rel]) = Inr 0 \<and> pkgid env ?hint (s0 @ [?rel]) = (Inr d, s2)"
    then have e: "execAndSucceed env ''cargo'' (cargoReleaseArgs branchName requested)
                    (Some (path crate)) s0 = (Inr (), s0 @ [?rel])"
      by (simp add: execAndSucceed_eq)
    show "runCargoRelease env crate requested branchName s =
          (if version d = version crate
           then (Inl (Error ''New and old versions are identical, not proceeding''), s2)
           else (Inr (version d), s2 @ [SetOutput ''version'' (version d)]))"
      using a e
      by (simp add: runCargoRelease_def io_bind_Inr Let_def io_throw_def setOutput_def
            io_return_def io_bind_def)
  }
  {
    assume r: "runCargoRelease env crate requested branchName s = (Inr confirmed, s')"
    from io_bind_success [OF r [unfolded runCargoRelease_def]] obtain u0 s0 where
      i: "installCargoRelease env s = (Inr u0, s0)" and
      r1: "io_bind (execAndSucceed env ''cargo'' (cargoReleaseArgs branchName requested)
                       (Some (path crate)))
            (\<lambda>_. io_bind (pkgid env ?hint)
              (\<lambda>resolved. let newVersion = version resolved
                 in if newVersion = version crate
                    then io_throw (Error ''New and old versions are identical, not proceeding'')
                    else io_bind (setOutput ''version'' newVersion) (\<lambda>_. io_return newVersion)))
            s0 = (Inr confirmed, s')"
      by blast
    from io_bind_success [OF r1] obtain u1 s1 where
      e: "execAndSucceed env ''cargo'' (cargoReleaseArgs branchName requested)
             (Some (path crate)) s0 = (Inr u1, s1)" and
      r2: "io_bind (pkgid env ?hint)
              (\<lambda>resolved. let newVersion = version resolved
                 in if newVersion = version crate
                    then io_throw (Error ''New and old versions are identical, not proceeding'')
                    else io_bind (setOutput ''version'' newVersion) (\<lambda>_. io_return newVersion))
            s1 = (Inr confirmed, s')"
      by blast
    from e have x: "exec env (s0 @ [?rel]) = Inr 0" and s1: "s1 = s0 @ [?rel]"
      by (auto simp: execAndSucceed_eq split: sum.splits if_splits)
    from io_bind_success [OF r2] obtain d s2 where
      p: "pkgid env ?hint s1 = (Inr d, s2)" and
      r3: "(let newVersion = version d
                 in if newVersion = version crate
                    then io_throw (Error ''New and old versions are identical, not proceeding'')
                    else io_bind (setOutput ''version'' newVersion) (\<lambda>_. io_return newVersion))
            s2 = (Inr confirmed, s')"
      by blast
    from r3 have c: "version d \<noteq> version crate" "confirmed = version d"
        "s' = s2 @ [SetOutput ''version'' confirmed]"
      by (auto simp: Let_def io_throw_def io_bind_def setOutput_def io_return_def
            split: if_splits)
    show "confirmed \<noteq> version crate" using c by simp
    show "\<exists>s0 s2 d. installCargoRelease env s = (Inr (), s0)
             \<and> exec env (s0 @ [?rel]) = Inr 0
             \<and> pkgid env ?hint (s0 @ [?rel]) = (Inr d, s2)
             \<and> confirmed = version d
             \<and> s' = s2 @ [SetOutput ''version'' confirmed]"
      using i x p s1 c by auto
  }
qed

theorem runCargoRelease_confirmed_version_witness:
  "runCargoRelease
      (example_env example_inputs example_files [] [''foo 1.2.3 (path+file:///ws/foo)''])
      \<lparr>name = ''foo'', path = ''/ws/foo'', version = ''1.2.2''\<rparr> ''patch'' ''release/patch'' []
     = (Inr ''1.2.3'',
        [Exec ''cargo-release'' [''--help''] None,
         Exec ''cargo'' (cargoReleaseArgs ''release/patch'' ''patch'') (Some ''/ws/foo''),
         GetExecOutput ''cargo'' [''metadata'', ''--format-version=1''],
         SetOutput ''version'' ''1.2.3''])
   \<and> runCargoRelease
      (example_env example_inputs example_files [] [''foo 1.2.2 (path+file:///ws/foo)''])
      \<lparr>name = ''foo'', path = ''/ws/foo'', version = ''1.2.2''\<rparr> ''patch'' ''release/patch'' []
     = (Inl (Error ''New and old versions are identical, not proceeding''),
        [Exec ''cargo-release'' [''--help''] None,
         Exec ''cargo'' (cargoReleaseArgs ''release/patch'' ''patch'') (Some ''/ws/foo''),
         GetExecOutput ''cargo'' [''metadata'', ''--format-version=1'']])"
proof -
  define E where "E = (\<lambda>after. example_env example_inputs example_files [] after)"
  define crate where "crate = \<lparr>name = ''foo'', path = ''/ws/foo'', version = ''1.2.2''\<rparr>"
  define s0 where "s0 = [Exec ''cargo-release'' [''--help''] None]"
  define rel where "rel = Exec ''cargo'' (cargoReleaseArgs ''release/patch'' ''patch'') (Some ''/ws/foo'')"
  define q where "q = GetExecOutput ''cargo'' [''metadata'', ''--format-version=1'']"
  define d1 where "d1 = \<lparr>name = ''foo'', path = ''/ws/foo'', version = ''1.2.3''\<rparr>"
  have c: "name crate = ''foo''" "path crate = ''/ws/foo''" "version crate = ''1.2.2''"
    by (simp_all add: crate_def)
  have i: "installCargoRelease (E after) [] = (Inr (), s0)" for after
    unfolding E_def s0_def
    by (simp add: installCargoRelease_def toolExists_def io_call_def io_bind_def io_return_def
          example_env_def)
  have x: "exec (E after) (s0 @ [rel]) = Inr 0" for after
    by (simp add: example_env_def E_def)
  have p1: "pkgid (E [''foo 1.2.3 (path+file:///ws/foo)''])
              \<lparr>arg_name = Some ''foo'', arg_path = Some ''/ws/foo''\<rparr> (s0 @ [rel])
            = (Inr d1, s0 @ [rel] @ [q])"
    unfolding E_def s0_def rel_def q_def d1_def by code_simp
  have p2: "pkgid (E [''foo 1.2.2 (path+file:///ws/foo)''])
              \<lparr>arg_name = Some ''foo'', arg_path = Some ''/ws/foo''\<rparr> (s0 @ [rel])
            = (Inr crate, s0 @ [rel] @ [q])"
    unfolding E_def s0_def rel_def q_def crate_def by code_simp
  have r1: "runCargoRelease (E [''foo 1.2.3 (path+file:///ws/foo)'']) crate ''patch'' ''release/patch'' []
        = (if version d1 = version crate
           then (Inl (Error ''New and old versions are identical, not proceeding''), s0 @ [rel] @ [q])
           else (Inr (version d1), (s0 @ [rel] @ [q]) @ [SetOutput ''version'' (version d1)]))"
    using runCargoRelease_confirmed_version [of "E [''foo 1.2.3 (path+file:///ws/foo)'']" "[]" s0
        "''release/patch''" "''patch''" crate d1 "s0 @ [rel] @ [q]"]
      i x p1 unfolding c rel_def by blast
  have r2: "runCargoRelease (E [''foo 1.2.2 (path+file:///ws/foo)'']) crate ''patch'' ''release/patch'' []
        = (if version crate = version crate
           then (Inl (Error ''New and old versions are identical, not proceeding''), s0 @ [rel] @ [q])
           else (Inr (version crate), (s0 @ [rel] @ [q]) @ [SetOutput ''version'' (version crate)]))"
    using runCargoRelease_confirmed_version [of "E [''foo 1.2.2 (path+file:///ws/foo)'']" "[]" s0
        "''release/patch''" "''patch''" crate crate "s0 @ [rel] @ [q]"]
      i x p2 unfolding c rel_def by blast
  have v: "version d1 = ''1.2.3''" by (simp add: d1_def)
  have ne: "''1.2.3'' \<noteq> ''1.2.2''" by simp
  show ?thesis
    using r1 r2 unfolding v c
    unfolding E_def crate_def s0_def rel_def q_def
    using ne by simp
qed

text \<open>
  Claim C3 fails for a template file that is blank: the file is read, its contents do
  not pass the test for a non-blank template, and the default template is used, not
  the contents of the file (nor the inline template).
\<close>

theorem bodyTemplate_blank_file_counterexample:
  "bodyTemplate (example_env example_inputs example_files [] [])
      \<lparr>pr_title = ''t'', pr_label = None, pr_draft = False, pr_modifiable = True,
       pr_template = Some ''inline'', pr_templateFile = Some ''blank.ejs'',
       pr_mergeStrategy = ''squash'', pr_releaseNotes = False\<rparr> []
     = (Inr ''Release <%= title %>'',
        [ReadFile ''blank.ejs'', ReadFile ''/action/dist/default-template.ejs''])
   \<and> example_files ''blank.ejs'' = Inr ''  ''"
  by code_simp

text \<open>
  Claim C3, amended. When a template file is given (a non-empty path), its contents
  are the template if they are not blank after trimming, whatever the inline template
  is, and the default template is read if they are blank. With no file, an inline
  template that is not blank after trimming is used as it is, and an absent or blank
  inline template gives the default template.
\<close>

theorem bodyTemplate_source:
  "(pr_templateFile pr = Some file \<and> file \<noteq> [] \<and> readFile env (s @ [ReadFile file]) = Inr contents
      \<longrightarrow> bodyTemplate env pr s =
            (if trim contents \<noteq> [] then (Inr contents, s @ [ReadFile file])
             else (readFile env (s @ [ReadFile file,
                                      ReadFile (join (dirname env) ''default-template.ejs'')]),
                   s @ [ReadFile file, ReadFile (join (dirname env) ''default-template.ejs'')])))
   \<and> (\<not> truthy (pr_templateFile pr) \<and> pr_template pr = Some t \<and> trim t \<noteq> []
      \<longrightarrow> bodyTemplate env pr s = (Inr t, s))
   \<and> (\<not> truthy (pr_templateFile pr) \<and> (pr_template pr = None \<or> pr_template pr = Some t \<and> trim t = [])
      \<longrightarrow> bodyTemplate env pr s =
            (readFile env (s @ [ReadFile (join (dirname env) ''default-template.ejs'')]),
             s @ [ReadFile (join (dirname env) ''default-template.ejs'')]))"
proof (intro conjI impI)
  assume "pr_templateFile pr = Some file \<and> file \<noteq> [] \<and> readFile env (s @ [ReadFile file]) = Inr contents"
  then show "bodyTemplate env pr s =
            (if trim contents \<noteq> [] then (Inr contents, s @ [ReadFile file])
             else (readFile env (s @ [ReadFile file,
                                      ReadFile (join (dirname env) ''default-template.ejs'')]),
                   s @ [ReadFile file, ReadFile (join (dirname env) ''default-template.ejs'')]))"
    by (simp add: bodyTemplate_def io_bind_def io_call_def io_return_def)
next
  assume "\<not> truthy (pr_templateFile pr) \<and> pr_template pr = Some t \<and> trim t \<noteq> []"
  then show "bodyTemplate env pr s = (Inr t, s)"
    by (cases "pr_templateFile pr") (simp_all add: bodyTemplate_def io_bind_def io_return_def)
next
  assume "\<not> truthy (pr_templateFile pr)
            \<and> (pr_template pr = None \<or> pr_template pr = Some t \<and> trim t = [])"
  then show "bodyTemplate env pr s =
            (readFile env (s @ [ReadFile (join (dirname env) ''default-template.ejs'')]),
             s @ [ReadFile (join (dirname env) ''default-template.ejs'')])"
    by (cases "pr_templateFile pr")
       (auto simp: bodyTemplate_def io_bind_def io_return_def io_call_def)
qed

theorem bodyTemplate_source_witness:
  "bodyTemplate (example_env example_inputs example_files [] [])
      \<lparr>pr_title = ''t'', pr_label = None, pr_draft = False, pr_modifiable = True,
       pr_template = Some ''inline'', pr_templateFile = Some ''body.ejs'',
       pr_mergeStrategy = ''squash'', pr_releaseNotes = False\<rparr> []
     = (Inr ''From <%= branchName %>'', [ReadFile ''body.ejs''])
   \<and> bodyTemplate (example_env example_inputs example_files [] [])
      \<lparr>pr_title = ''t'', pr_label = None, pr_draft = False, pr_modifiable = True,
       pr_template = Some ''inline'', pr_templateFile = None,
       pr_mergeStrategy = ''squash'', pr_releaseNotes = False\<rparr> []
     = (Inr ''inline'', [])
   \<and> bodyTemplate (example_env example_inputs example_files [] [])
      \<lparr>pr_title = ''t'', pr_label = None, pr_draft = False, pr_modifiable = True,
       pr_template = Some ''  '', pr_templateFile = None,
       pr_mergeStrategy = ''squash'', pr_releaseNotes = False\<rparr> []
     = (Inr ''Release <%= title %>'', [ReadFile ''/action/dist/default-template.ejs''])"
proof -
  let ?E = "example_env example_inputs example_files [] []"
  let ?pr = "\<lambda>t f. \<lparr>pr_title = ''t'', pr_label = None, pr_draft = False, pr_modifiable = True,
       pr_template = t, pr_templateFile = f,
       pr_mergeStrategy = ''squash'', pr_releaseNotes = False\<rparr>"
  have r: "readFile ?E ([] @ [ReadFile ''body.ejs'']) = Inr ''From <%= branchName %>''"
    by (simp add: example_env_def example_files_def)
  have t1: "trim ''From <%= branchName %>'' \<noteq> []" by code_simp
  have t2: "trim ''inline'' \<noteq> []" by code_simp
  have t3: "trim ''  '' = []" by code_simp
  have j: "join (dirname ?E) ''default-template.ejs'' = ''/action/dist/default-template.ejs''"
    by code_simp
  have d: "readFile ?E ([] @ [ReadFile ''/action/dist/default-template.ejs''])
             = Inr ''Release <%= title %>''"
    by (simp add: example_env_def example_files_def)
  show ?thesis
    using bodyTemplate_source [of "?pr (Some ''inline'') (Some ''body.ejs'')" "''body.ejs''" ?E "[]"
        "''From <%= branchName %>''" "''inline''"]
      bodyTemplate_source [of "?pr (Some ''inline'') None" "''body.ejs''" ?E "[]"
        "''From <%= branchName %>''" "''inline''"]
      bodyTemplate_source [of "?pr (Some ''  '') None" "''body.ejs''" ?E "[]"
        "''From <%= branchName %>''" "''  ''"]
      r t1 t2 t3 j d
    by simp
qed

text \<open>
  Claim C9. A pull request is made only after the title template was rendered with
  no \<^verbatim>\<open>title\<close> among the variables, and the body template was rendered with the
  variables extended by that rendered title; the title and the body sent to the host
  are these two results. On the modelled fragment of ejs, the default title template
  with crate name \<^verbatim>\<open>foo\<close> and actual version \<^verbatim>\<open>1.2.3\<close> renders to
  \<^verbatim>\<open>release: foo v1.2.3\<close>, and a body template that prints \<^verbatim>\<open>title\<close> sees that string.
\<close>

theorem makePR_title_then_body:
  "(makePR env inputs crate baseBranch branchName newVersion s = (Inr (), s') \<longrightarrow>
      (\<exists>rendered template s1 body url.
          vars_title (templateVars inputs crate branchName newVersion) = None
        \<and> ejs_render env (pr_title (inputs_pr inputs))
              (templateVars inputs crate branchName newVersion) = Inr rendered
        \<and> bodyTemplate env (inputs_pr inputs) s = (Inr template, s1)
        \<and> ejs_render env template
              ((templateVars inputs crate branchName newVersion)\<lparr>vars_title := Some rendered\<rparr>)
             = Inr body
        \<and> s' = s1 @ [CreatePull rendered body branchName baseBranch
                        (pr_modifiable (inputs_pr inputs)) (pr_draft (inputs_pr inputs)),
                      SetOutput ''pr-url'' url]))
   \<and> (name crate = ''foo'' \<and> newVersion = ''1.2.3'' \<longrightarrow>
        ejs_fragment ''release: <%= crate.name %> v<%= version.actual %>''
            (templateVars inputs crate branchName newVersion) = Inr ''release: foo v1.2.3''
        \<and> ejs_fragment ''<%= title %>''
            ((templateVars inputs crate branchName newVersion)
               \<lparr>vars_title := Some ''release: foo v1.2.3''\<rparr>) = Inr ''release: foo v1.2.3'')"
proof (intro conjI impI)
  let ?vars = "templateVars inputs crate branchName newVersion"
  let ?pr = "inputs_pr inputs"
  {
    assume r: "makePR env inputs crate baseBranch branchName newVersion s = (Inr (), s')"
    from io_bind_success [OF r [unfolded makePR_def Let_def]] obtain rendered s0 where
      t: "io_of (ejs_render env (pr_title ?pr) ?vars) s = (Inr rendered, s0)" and
      r1: "io_bind (bodyTemplate env ?pr)
             (\<lambda>template. io_bind (io_of (ejs_render env template (?vars\<lparr>vars_title := Some rendered\<rparr>)))
                (\<lambda>body. io_bind (io_call (request env)
                                   (CreatePull rendered body branchName baseBranch
                                      (pr_modifiable ?pr) (pr_draft ?pr)))
                          (\<lambda>url. setOutput ''pr-url'' url))) s0 = (Inr (), s')"
      by blast
    from t have t': "ejs_render env (pr_title ?pr) ?vars = Inr rendered" "s0 = s"
      by (simp_all add: io_of_def)
    from io_bind_success [OF r1] obtain template s1 where
      b: "bodyTemplate env ?pr s0 = (Inr template, s1)" and
      r2: "io_bind (io_of (ejs_render env template (?vars\<lparr>vars_title := Some rendered\<rparr>)))
                (\<lambda>body. io_bind (io_call (request env)
                                   (CreatePull rendered body branchName baseBranch
                                      (pr_modifiable ?pr) (pr_draft ?pr)))
                          (\<lambda>url. setOutput ''pr-url'' url)) s1 = (Inr (), s')"
      by blast
    from io_bind_success [OF r2] obtain body s2 where
      e: "io_of (ejs_render env template (?vars\<lparr>vars_title := Some rendered\<rparr>)) s1 = (Inr body, s2)" and
      r3: "io_bind (io_call (request env)
                                   (CreatePull rendered body branchName baseBranch
                                      (pr_modifiable ?pr) (pr_draft ?pr)))
                          (\<lambda>url. setOutput ''pr-url'' url) s2 = (Inr (), s')"
      by blast
    from e have e': "ejs_render env template (?vars\<lparr>vars_title := Some rendered\<rparr>) = Inr body"
        "s2 = s1"
      by (simp_all add: io_of_def)
    from io_bind_success [OF r3] obtain url s3 where
      c: "io_call (request env) (CreatePull rendered body branchName baseBranch
                                      (pr_modifiable ?pr) (pr_draft ?pr)) s2 = (Inr url, s3)" and
      o: "setOutput ''pr-url'' url s3 = (Inr (), s')"
      by blast
    from c o have s': "s' = s1 @ [CreatePull rendered body branchName baseBranch
                        (pr_modifiable ?pr) (pr_draft ?pr), SetOutput ''pr-url'' url]"
      using e'(2) by (auto simp: io_call_def setOutput_def)
    have n: "vars_title ?vars = None" by (simp add: templateVars_def)
    show "\<exists>rendered template s1 body url.
          vars_title ?vars = None
        \<and> ejs_render env (pr_title ?pr) ?vars = Inr rendered
        \<and> bodyTemplate env ?pr s = (Inr template, s1)
        \<and> ejs_render env template (?vars\<lparr>vars_title := Some rendered\<rparr>) = Inr body
        \<and> s' = s1 @ [CreatePull rendered body branchName baseBranch
                        (pr_modifiable ?pr) (pr_draft ?pr), SetOutput ''pr-url'' url]"
      using n t' b e'(1) s' by blast
  }
  {
    assume a: "name crate = ''foo'' \<and> newVersion = ''1.2.3''"
    have v: "ejs_variable ?vars ''crate.name'' = Some ''foo''"
      "ejs_variable ?vars ''version.actual'' = Some ''1.2.3''"
      "ejs_variable (?vars\<lparr>vars_title := Some ''release: foo v1.2.3''\<rparr>) ''title''
         = Some ''release: foo v1.2.3''"
      using a by (simp_all add: ejs_variable_def templateVars_def)
    have tr: "trim '' crate.name '' = ''crate.name''" "trim '' version.actual '' = ''version.actual''"
      "trim '' title '' = ''title''"
      by code_simp+
    have esc: "escapeXML ''foo'' = ''foo''" "escapeXML ''1.2.3'' = ''1.2.3''"
      "escapeXML ''release: foo v1.2.3'' = ''release: foo v1.2.3''"
      by code_simp+
    have nil: "ejs_fragment [] w = Inr []" for w
      by (simp add: ejs_fragment.simps)
    have tag2: "ejs_fragment ''<%= version.actual %>'' ?vars = Inr ''1.2.3''"
      by (subst ejs_fragment.simps) (simp add: v tr esc nil)
    have lit2: "ejs_fragment '' v<%= version.actual %>'' ?vars = Inr '' v1.2.3''"
      apply (subst ejs_fragment.simps, simp)
      apply (subst ejs_fragment.simps, simp add: tag2)
      done
    have tag1: "ejs_fragment ''<%= crate.name %> v<%= version.actual %>'' ?vars = Inr ''foo v1.2.3''"
      by (subst ejs_fragment.simps) (simp add: v tr esc lit2)
    show "ejs_fragment ''release: <%= crate.name %> v<%= version.actual %>'' ?vars
            = Inr ''release: foo v1.2.3''"
      apply (subst ejs_fragment.simps, simp)
      apply (subst ejs_fragment.simps, simp)
      apply (subst ejs_fragment.simps, simp)
      apply (subst ejs_fragment.simps, simp)
      apply (subst ejs_fragment.simps, simp)
      apply (subst ejs_fragment.simps, simp)
      apply (subst ejs_fragment.simps, simp)
      apply (subst ejs_fragment.simps, simp)
      apply (subst ejs_fragment.simps, simp add: tag1)
      done
    show "ejs_fragment ''<%= title %>'' (?vars\<lparr>vars_title := Some ''release: foo v1.2.3''\<rparr>)
            = Inr ''release: foo v1.2.3''"
      by (subst ejs_fragment.simps) (simp add: v tr esc nil)
  }
qed

theorem makePR_title_then_body_witness:
  "makePR (example_env example_inputs example_files [] []) example_inputs
      \<lparr>name = ''foo'', path = ''/ws/foo'', version = ''1.2.2''\<rparr> ''main'' ''release/patch'' ''1.2.3'' []
     = (Inr (),
        [ReadFile ''/action/dist/default-template.ejs'',
         CreatePull ''release: foo v1.2.3'' ''Release release: foo v1.2.3'' ''release/patch'' ''main''
           True False,
         SetOutput ''pr-url'' ''https://github.com/o/r/pull/1''])
   \<and> ejs_fragment ''release: <%= crate.name %> v<%= version.actual %>''
        (templateVars example_inputs \<lparr>name = ''foo'', path = ''/ws/foo'', version = ''1.2.2''\<rparr>
           ''release/patch'' ''1.2.3'') = Inr ''release: foo v1.2.3''
   \<and> (\<exists>rendered template body.
         ejs_render (example_env example_inputs example_files [] [])
             (pr_title (inputs_pr example_inputs))
             (templateVars example_inputs \<lparr>name = ''foo'', path = ''/ws/foo'', version = ''1.2.2''\<rparr>
                ''release/patch'' ''1.2.3'') = Inr rendered
       \<and> ejs_render (example_env example_inputs example_files [] []) template
             ((templateVars example_inputs \<lparr>name = ''foo'', path = ''/ws/foo'', version = ''1.2.2''\<rparr>
                ''release/patch'' ''1.2.3'')\<lparr>vars_title := Some rendered\<rparr>) = Inr body)"
proof -
  define E where "E = example_env example_inputs example_files [] []"
  define crate where "crate = \<lparr>name = ''foo'', path = ''/ws/foo'', version = ''1.2.2''\<rparr>"
  define s' where "s' = [ReadFile ''/action/dist/default-template.ejs'',
         CreatePull ''release: foo v1.2.3'' ''Release release: foo v1.2.3'' ''release/patch'' ''main''
           True False,
         SetOutput ''pr-url'' ''https://github.com/o/r/pull/1'']"
  have run: "makePR E example_inputs crate ''main'' ''release/patch'' ''1.2.3'' [] = (Inr (), s')"
    unfolding E_def crate_def s'_def by code_simp
  have h: "name crate = ''foo'' \<and> ''1.2.3'' = ''1.2.3''" by (simp add: crate_def)
  note T = makePR_title_then_body [of E example_inputs crate "''main''" "''release/patch''"
      "''1.2.3''" "[]" s']
  from T run have 1: "\<exists>rendered template s1 body url.
          vars_title (templateVars example_inputs crate ''release/patch'' ''1.2.3'') = None
        \<and> ejs_render E (pr_title (inputs_pr example_inputs))
              (templateVars example_inputs crate ''release/patch'' ''1.2.3'') = Inr rendered
        \<and> bodyTemplate E (inputs_pr example_inputs) [] = (Inr template, s1)
        \<and> ejs_render E template
              ((templateVars example_inputs crate ''release/patch'' ''1.2.3'')\<lparr>vars_title := Some rendered\<rparr>)
             = Inr body
        \<and> s' = s1 @ [CreatePull rendered body ''release/patch'' ''main''
                        (pr_modifiable (inputs_pr example_inputs)) (pr_draft (inputs_pr example_inputs)),
                      SetOutput ''pr-url'' url]"
    by blast
  from T h have 2: "ejs_fragment ''release: <%= crate.name %> v<%= version.actual %>''
            (templateVars example_inputs crate ''release/patch'' ''1.2.3'') = Inr ''release: foo v1.2.3''"
    by blast
  from 1 have 3: "\<exists>rendered template body.
         ejs_render E (pr_title (inputs_pr example_inputs))
             (templateVars example_inputs crate ''release/patch'' ''1.2.3'') = Inr rendered
       \<and> ejs_render E template
             ((templateVars example_inputs crate ''release/patch'' ''1.2.3'')\<lparr>vars_title := Some rendered\<rparr>)
            = Inr body"
    by blast
  show ?thesis using run 2 3 unfolding E_def crate_def s'_def by blast
qed

section \<open>The order of the calls of a run\<close>

lemma appendsI:
  assumes "\<And>s. \<exists>ext. snd (m s) = s @ ext \<and> list_all P ext"
  shows "appends P m"
  using assms by (simp add: appends_def)

lemma appendsD:
  assumes "appends P m"
  obtains ext where "snd (m s) = s @ ext" and "list_all P ext"
  using assms unfolding appends_def by blast

lemma appends_return: "appends P (io_return x)"
  by (simp add: appends_def io_return_def)

lemma appends_throw: "appends P (io_throw e)"
  by (simp add: appends_def io_throw_def)

lemma appends_of: "appends P (io_of r)"
  by (simp add: appends_def io_of_def)

lemma appends_call: "P c \<Longrightarrow> appends P (io_call answer c)"
  by (simp add: appends_def io_call_def)

lemma appends_setOutput: "P (SetOutput k v) \<Longrightarrow> appends P (setOutput k v)"
  by (simp add: appends_def setOutput_def)

lemma appends_bind:
  assumes "appends P m" and "\<And>x. appends P (f x)"
  shows "appends P (io_bind m f)"
proof (rule appendsI)
  fix s
  from assms(1) obtain e1 where m: "snd (m s) = s @ e1" "list_all P e1"
    by (rule appendsD)
  show "\<exists>ext. snd (io_bind m f s) = s @ ext \<and> list_all P ext"
  proof (cases "m s")
    case (Pair r s1)
    then have s1: "s1 = s @ e1" using m(1) by simp
    show ?thesis
    proof (cases r)
      case (Inl e)
      then show ?thesis using Pair s1 m(2) by (simp add: io_bind_def)
    next
      case (Inr x)
      from assms(2) [of x] obtain e2 where f: "snd (f x s1) = s1 @ e2" "list_all P e2"
        by (rule appendsD)
      have "snd (io_bind m f s) = s @ (e1 @ e2)"
        using Pair Inr f(1) s1 by (simp add: io_bind_def)
      moreover have "list_all P (e1 @ e2)" using m(2) f(2) by simp
      ultimately show ?thesis by blast
    qed
  qed
qed

lemma appends_execAndSucceed:
  "P (Exec program args cwd) \<Longrightarrow> appends P (execAndSucceed env program args cwd)"
  unfolding execAndSucceed_def
  by (intro appends_bind appends_call) (simp_all add: appends_throw appends_return)

lemma appends_toolExists:
  "P (Exec tool [''--help''] None) \<Longrightarrow> appends P (toolExists env tool)"
  by (rule appendsI) (simp add: toolExists_def io_call_def split: sum.splits)

lemma appends_execWithOutput:
  "P (GetExecOutput program args) \<Longrightarrow> appends P (execWithOutput env program args)"
  unfolding execWithOutput_def
  by (intro appends_bind appends_call) (simp_all add: appends_throw appends_return split: prod.splits)

lemma appends_pkgid:
  "P (GetExecOutput ''cargo'' [''metadata'', ''--format-version=1'']) \<Longrightarrow> appends P (pkgid env crate)"
  unfolding pkgid_def Let_def
  by (intro appends_bind appends_execWithOutput)
     (simp_all add: appends_throw appends_of split: sum.splits option.splits)

lemma appends_findCrate:
  "P (GetExecOutput ''cargo'' [''metadata'', ''--format-version=1'']) \<Longrightarrow> appends P (findCrate env crate)"
  unfolding findCrate_def by (simp add: appends_pkgid)

lemma appends_installCargoRelease:
  assumes "P (Exec ''cargo-release'' [''--help''] None)" and "P (Exec ''cargo-binstall'' [''--help''] None)"
      and "P (Exec ''cargo'' [''binstall'', ''cargo-release''] None)"
      and "P (Exec ''cargo'' [''install'', ''cargo-release''] None)"
  shows "appends P (installCargoRelease env)"
  unfolding installCargoRelease_def
  by (intro appends_bind appends_toolExists assms)
     (simp_all add: appends_bind appends_toolExists appends_execAndSucceed appends_return assms)

lemma not_release:
  "only_release b v (GetExecOutput p a)" "only_release b v (ReadFile f)" "only_release b v GetRepo"
  "only_release b v (CreatePull t bd h ba mo dr)" "only_release b v (SetOutput k x)"
  "only_release b v (SetFailed e)"
  "only_release b v (Exec ''git'' args cwd)"
  "only_release b v (Exec ''cargo-release'' args cwd)"
  "only_release b v (Exec ''cargo-binstall'' args cwd)"
  "only_release b v (Exec ''cargo'' [''binstall'', ''cargo-release''] cwd)"
  "only_release b v (Exec ''cargo'' [''install'', ''cargo-release''] cwd)"
  "only_release b v (Exec ''cargo'' (cargoReleaseArgs b v) cwd)"
  by (simp_all add: only_release_def)

lemma not_release':
  "\<not> is_cargo_release (GetExecOutput p a)" "\<not> is_cargo_release (ReadFile f)"
  "\<not> is_cargo_release GetRepo"
  "\<not> is_cargo_release (CreatePull t bd h ba mo dr)" "\<not> is_cargo_release (SetOutput k x)"
  "\<not> is_cargo_release (SetFailed e)"
  "\<not> is_cargo_release (Exec ''git'' args cwd)"
  by (simp_all add: is_cargo_release_def)

lemma appends_runCargoRelease:
  "appends (only_release b v) (runCargoRelease env crate v b)"
  unfolding runCargoRelease_def Let_def
  by (intro appends_bind appends_installCargoRelease appends_execAndSucceed appends_pkgid not_release)
     (simp_all add: appends_throw appends_bind appends_setOutput appends_return not_release)

lemma appends_bodyTemplate:
  "(\<And>f. P (ReadFile f)) \<Longrightarrow> appends P (bodyTemplate env pr)"
  unfolding bodyTemplate_def
  by (intro appends_bind)
     (simp_all add: appends_bind appends_call appends_return split: option.splits)

lemma appends_makePR:
  "appends (only_release b v) (makePR env inputs crate baseBranch branchName newVersion)"
  unfolding makePR_def Let_def
  by (intro appends_bind appends_of appends_bodyTemplate appends_call appends_setOutput not_release)

lemma appends_setGithubUser:
  "appends (\<lambda>c. \<not> is_cargo_release c) (setGithubUser env git)"
  unfolding setGithubUser_def
  by (intro appends_bind appends_execAndSucceed not_release')

lemma appends_getDefaultBranch:
  "appends (\<lambda>c. \<not> is_cargo_release c) (getDefaultBranch env)"
  unfolding getDefaultBranch_def by (intro appends_call not_release')


lemma list_all_weaken:
  "list_all (\<lambda>c. \<not> is_cargo_release c) xs \<Longrightarrow> list_all (only_release b v) xs"
  by (induction xs) (auto simp: only_release_def is_cargo_release_def split: call.splits)

lemma makeBranch_eq:
  "makeBranch env v git s =
     (case exec env (s @ [Exec ''git'' [''switch'', ''-c'', branchPrefix git @ branchSeparator git @ v] None]) of
        Inl e \<Rightarrow> (Inl e, s @ [Exec ''git'' [''switch'', ''-c'', branchPrefix git @ branchSeparator git @ v] None])
      | Inr exit \<Rightarrow>
          if exit \<noteq> 0
          then (Inl (ProcessError ''git'' exit),
                s @ [Exec ''git'' [''switch'', ''-c'', branchPrefix git @ branchSeparator git @ v] None])
          else (Inr (branchPrefix git @ branchSeparator git @ v),
                s @ [Exec ''git'' [''switch'', ''-c'', branchPrefix git @ branchSeparator git @ v] None,
                     SetOutput ''pr-branch'' (branchPrefix git @ branchSeparator git @ v)]))"
  by (simp add: makeBranch_def Let_def io_bind_def execAndSucceed_eq setOutput_def io_return_def
        split: sum.splits)

text \<open>The calls of a run: none of them a release before the branch is made, and after it only the release for that branch.\<close>

lemma run_trace:
  assumes "getInputs env = Inr inputs"
  defines "b \<equiv> branchPrefix (inputs_git inputs) @ branchSeparator (inputs_git inputs) @ inputs_version inputs"
  shows "list_all (\<lambda>c. \<not> is_cargo_release c) (snd (run env []))
       \<or> (\<exists>t0 ext. snd (run env []) = t0 @ Exec ''git'' [''switch'', ''-c'', b] None # ext
             \<and> list_all (\<lambda>c. \<not> is_cargo_release c) t0
             \<and> list_all (only_release b (inputs_version inputs)) ext)"
proof -
  let ?N = "\<lambda>c. \<not> is_cargo_release c"
  let ?v = "inputs_version inputs"
  let ?git = "inputs_git inputs"
  let ?base = "case inputs_baseBranch inputs of
                        None \<Rightarrow> getDefaultBranch env
                      | Some b \<Rightarrow> if b \<noteq> [] then io_return b else getDefaultBranch env"
  let ?rest = "\<lambda>baseBranch branchName. io_bind (findCrate env (inputs_crate inputs))
       (\<lambda>crate. io_bind (runCargoRelease env crate ?v branchName)
       (\<lambda>newVersion. io_bind (pushBranch env branchName)
       (\<lambda>_. makePR env inputs crate baseBranch branchName newVersion)))"
  let ?sw = "Exec ''git'' [''switch'', ''-c'', b] None"
  have run: "run env [] = io_bind (setGithubUser env ?git)
       (\<lambda>_. io_bind ?base (\<lambda>baseBranch. io_bind (makeBranch env ?v ?git)
          (\<lambda>branchName. ?rest baseBranch branchName))) []"
    using assms(1) by (simp add: run_def io_bind_def io_of_def)
  have base: "appends ?N ?base"
    by (simp add: appends_getDefaultBranch appends_return split: option.splits)
  have rest: "appends (only_release b ?v) (?rest baseBranch b)" for baseBranch
    unfolding pushBranch_def
    by (intro appends_bind appends_findCrate appends_runCargoRelease appends_execAndSucceed
          appends_makePR not_release)
  obtain e1 where e1: "snd (setGithubUser env ?git []) = [] @ e1" "list_all ?N e1"
    using appends_setGithubUser by (rule appendsD)
  show ?thesis
  proof (cases "setGithubUser env ?git []")
    case (Pair r1 s1)
    then have s1: "s1 = e1" using e1(1) by simp
    show ?thesis
    proof (cases r1)
      case (Inl e)
      then have "snd (run env []) = e1" using run Pair s1 by (simp add: io_bind_def)
      then show ?thesis using e1(2) by simp
    next
      case r1: (Inr u1)
      obtain e2 where e2: "snd (?base s1) = s1 @ e2" "list_all ?N e2"
        using base by (rule appendsD)
      show ?thesis
      proof (cases "?base s1")
        case P2: (Pair r2 s2)
        then have s2: "s2 = e1 @ e2" using e2(1) s1 by simp
        have n2: "list_all ?N s2" using s2 e1(2) e2(2) by simp
        show ?thesis
        proof (cases r2)
          case (Inl e)
          then have "snd (run env []) = s2" using run Pair r1 P2 by (simp add: io_bind_def)
          then show ?thesis using n2 by simp
        next
          case r2: (Inr baseBranch)
          have run3: "run env [] = io_bind (makeBranch env ?v ?git)
                         (\<lambda>branchName. ?rest baseBranch branchName) s2"
            using run Pair r1 P2 r2 by (simp add: io_bind_def)
          show ?thesis
          proof (cases "makeBranch env ?v ?git s2")
            case P3: (Pair r3 s3)
            show ?thesis
            proof (cases r3)
              case (Inl e)
              then have "s3 = s2 @ [?sw]"
                using P3 unfolding makeBranch_eq b_def by (auto split: sum.splits if_splits)
              then have "snd (run env []) = s2 @ ?sw # []"
                using run3 P3 Inl by (simp add: io_bind_def)
              moreover have "list_all (only_release b ?v) []" by simp
              ultimately show ?thesis using n2 by blast
            next
              case r3: (Inr branchName)
              then have bn: "branchName = b" and s3: "s3 = s2 @ [?sw, SetOutput ''pr-branch'' b]"
                using P3 unfolding makeBranch_eq b_def by (auto split: sum.splits if_splits)
              obtain e4 where e4: "snd (?rest baseBranch b s3) = s3 @ e4"
                  "list_all (only_release b ?v) e4"
                using rest by (rule appendsD)
              have "snd (run env []) = s2 @ ?sw # (SetOutput ''pr-branch'' b # e4)"
                using run3 P3 r3 bn s3 e4(1) by (simp add: io_bind_def)
              moreover have "list_all (only_release b ?v) (SetOutput ''pr-branch'' b # e4)"
                using e4(2) by (simp add: not_release)
              ultimately show ?thesis using n2 by blast
            qed
          qed
        qed
      qed
    qed
  qed
qed


lemma split_after:
  "pre @ c # post = t0 @ sw # ext \<Longrightarrow> c \<notin> set t0 \<Longrightarrow> c \<noteq> sw \<Longrightarrow> sw \<in> set pre \<and> c \<in> set ext"
proof (induction t0 arbitrary: pre)
  case Nil
  then show ?case by (cases pre) auto
next
  case (Cons a t0)
  then show ?case by (cases pre) auto
qed

lemma main_trace:
  assumes "getInputs env = Inr inputs"
  defines "b \<equiv> branchPrefix (inputs_git inputs) @ branchSeparator (inputs_git inputs) @ inputs_version inputs"
  shows "list_all (\<lambda>c. \<not> is_cargo_release c) (main env)
       \<or> (\<exists>t0 ext. main env = t0 @ Exec ''git'' [''switch'', ''-c'', b] None # ext
             \<and> list_all (\<lambda>c. \<not> is_cargo_release c) t0
             \<and> list_all (only_release b (inputs_version inputs)) ext)"
proof -
  obtain tail where m: "main env = snd (run env []) @ tail"
    and tail: "list_all (\<lambda>c. \<not> is_cargo_release c) tail"
  proof (cases "run env []")
    case (Pair r s)
    show ?thesis
    proof (cases r)
      case (Inl e)
      then have "main env = snd (run env []) @ [SetFailed e]" using Pair by (simp add: main_def)
      then show ?thesis using that by (simp add: not_release')
    next
      case (Inr u)
      then have "main env = snd (run env []) @ []" using Pair by (simp add: main_def)
      then show ?thesis using that by simp
    qed
  qed
  from run_trace [OF assms(1)] show ?thesis
  proof
    assume "list_all (\<lambda>c. \<not> is_cargo_release c) (snd (run env []))"
    then show ?thesis using m tail by simp
  next
    assume "\<exists>t0 ext. snd (run env []) = t0 @ Exec ''git'' [''switch'', ''-c'',
               branchPrefix (inputs_git inputs) @ branchSeparator (inputs_git inputs) @ inputs_version inputs] None # ext
             \<and> list_all (\<lambda>c. \<not> is_cargo_release c) t0
             \<and> list_all (only_release (branchPrefix (inputs_git inputs) @ branchSeparator (inputs_git inputs) @ inputs_version inputs) (inputs_version inputs)) ext"
    then obtain t0 ext where t: "snd (run env []) = t0 @ Exec ''git'' [''switch'', ''-c'', b] None # ext"
      "list_all (\<lambda>c. \<not> is_cargo_release c) t0"
      "list_all (only_release b (inputs_version inputs)) ext"
      unfolding b_def by blast
    have "main env = t0 @ Exec ''git'' [''switch'', ''-c'', b] None # (ext @ tail)"
      using m t(1) by simp
    moreover have "list_all (only_release b (inputs_version inputs)) (ext @ tail)"
      using t(3) tail by (simp add: list_all_weaken)
    ultimately show ?thesis using t(2) by blast
  qed
qed

text \<open>
  Claim C10. The branch name is the prefix, the separator and the requested version
  string, joined in that order, and the branch is created under that name. In every
  run, a call of \<^verbatim>\<open>cargo release\<close> comes after the \<^verbatim>\<open>git switch -c\<close> that creates the
  branch, allows that branch, and is given the requested version: the name was fixed
  from the requested version (possibly a keyword such as \<^verbatim>\<open>patch\<close>) before the tool ran.
\<close>

theorem branch_named_before_release:
  "(makeBranch env requested git s = (Inr branchName, s') \<longrightarrow>
      branchName = branchPrefix git @ branchSeparator git @ requested
      \<and> s' = s @ [Exec ''git'' [''switch'', ''-c'', branchName] None,
                  SetOutput ''pr-branch'' branchName])
   \<and> (getInputs env = Inr inputs
        \<and> main env = pre @ Exec ''cargo'' (cargoReleaseArgs allowed released) cwd # post \<longrightarrow>
        allowed = branchPrefix (inputs_git inputs) @ branchSeparator (inputs_git inputs)
                    @ inputs_version inputs
        \<and> released = inputs_version inputs
        \<and> Exec ''git'' [''switch'', ''-c'', allowed] None \<in> set pre)"
proof (intro conjI impI)
  assume "makeBranch env requested git s = (Inr branchName, s')"
  then show "branchName = branchPrefix git @ branchSeparator git @ requested"
    "s' = s @ [Exec ''git'' [''switch'', ''-c'', branchName] None, SetOutput ''pr-branch'' branchName]"
    unfolding makeBranch_eq by (auto split: sum.splits if_splits)
next
  let ?b = "branchPrefix (inputs_git inputs) @ branchSeparator (inputs_git inputs) @ inputs_version inputs"
  let ?rel = "Exec ''cargo'' (cargoReleaseArgs allowed released) cwd"
  let ?sw = "Exec ''git'' [''switch'', ''-c'', ?b] None"
  assume a: "getInputs env = Inr inputs \<and> main env = pre @ ?rel # post"
  have rel: "is_cargo_release ?rel"
    by (simp add: is_cargo_release_def cargoReleaseArgs_def)
  have in_main: "?rel \<in> set (main env)" using a by simp
  from a main_trace [of env inputs] have
    "list_all (\<lambda>c. \<not> is_cargo_release c) (main env)
       \<or> (\<exists>t0 ext. main env = t0 @ ?sw # ext
             \<and> list_all (\<lambda>c. \<not> is_cargo_release c) t0
             \<and> list_all (only_release ?b (inputs_version inputs)) ext)"
    by simp
  then obtain t0 ext where t: "main env = t0 @ ?sw # ext"
      "list_all (\<lambda>c. \<not> is_cargo_release c) t0"
      "list_all (only_release ?b (inputs_version inputs)) ext"
    using rel in_main by (auto simp: list_all_iff)
  have "?rel \<notin> set t0" using t(2) rel by (auto simp: list_all_iff)
  moreover have "?rel \<noteq> ?sw" by simp
  moreover have "pre @ ?rel # post = t0 @ ?sw # ext" using a t(1) by simp
  ultimately have sp: "?sw \<in> set pre \<and> ?rel \<in> set ext" by (rule split_after [rotated 1])
  then have "only_release ?b (inputs_version inputs) ?rel" using t(3) by (auto simp: list_all_iff)
  then have "cargoReleaseArgs allowed released = cargoReleaseArgs ?b (inputs_version inputs)"
    using rel by (simp add: only_release_def is_cargo_release_def)
  then have eq: "allowed = ?b" "released = inputs_version inputs"
    by (simp_all add: cargoReleaseArgs_def)
  show "allowed = ?b" "released = inputs_version inputs" using eq by simp_all
  show "Exec ''git'' [''switch'', ''-c'', allowed] None \<in> set pre" using sp eq by simp
qed

theorem branch_named_before_release_witness:
  "makeBranch (example_env example_inputs example_files [] []) ''patch'' (inputs_git example_inputs) []
     = (Inr ''release/patch'',
        [Exec ''git'' [''switch'', ''-c'', ''release/patch''] None,
         SetOutput ''pr-branch'' ''release/patch''])
   \<and> ''release/patch'' = branchPrefix (inputs_git example_inputs)
         @ branchSeparator (inputs_git example_inputs) @ ''patch''
   \<and> main (example_env example_inputs example_files
          [''foo 1.2.2 (path+file:///ws/foo)''] [''foo 1.2.3 (path+file:///ws/foo)''])
     = [Exec ''git'' [''config'', ''user.name'', ''github-actions''] None,
        Exec ''git'' [''config'', ''user.email'', ''github-actions@github.com''] None,
        GetRepo,
        Exec ''git'' [''switch'', ''-c'', ''release/patch''] None,
        SetOutput ''pr-branch'' ''release/patch'',
        GetExecOutput ''cargo'' [''metadata'', ''--format-version=1''],
        Exec ''cargo-release'' [''--help''] None]
       @ Exec ''cargo'' (cargoReleaseArgs ''release/patch'' ''patch'') (Some ''/ws/foo'')
       # [GetExecOutput ''cargo'' [''metadata'', ''--format-version=1''],
          SetOutput ''version'' ''1.2.3'',
          Exec ''git'' [''push'', ''origin'', ''release/patch''] None,
          ReadFile ''/action/dist/default-template.ejs'',
          CreatePull ''release: foo v1.2.3'' ''Release release: foo v1.2.3'' ''release/patch'' ''main''
            True False,
          SetOutput ''pr-url'' ''https://github.com/o/r/pull/1'']
   \<and> ''patch'' = inputs_version example_inputs"
proof -
  define E0 where "E0 = example_env example_inputs example_files [] []"
  define E where "E = example_env example_inputs example_files
          [''foo 1.2.2 (path+file:///ws/foo)''] [''foo 1.2.3 (path+file:///ws/foo)'']"
  define pre where "pre = [Exec ''git'' [''config'', ''user.name'', ''github-actions''] None,
        Exec ''git'' [''config'', ''user.email'', ''github-actions@github.com''] None,
        GetRepo,
        Exec ''git'' [''switch'', ''-c'', ''release/patch''] None,
        SetOutput ''pr-branch'' ''release/patch'',
        GetExecOutput ''cargo'' [''metadata'', ''--format-version=1''],
        Exec ''cargo-release'' [''--help''] None]"
  define post where "post = [GetExecOutput ''cargo'' [''metadata'', ''--format-version=1''],
          SetOutput ''version'' ''1.2.3'',
          Exec ''git'' [''push'', ''origin'', ''release/patch''] None,
          ReadFile ''/action/dist/default-template.ejs'',
          CreatePull ''release: foo v1.2.3'' ''Release release: foo v1.2.3'' ''release/patch'' ''main''
            True False,
          SetOutput ''pr-url'' ''https://github.com/o/r/pull/1'']"
  have mb: "makeBranch E0 ''patch'' (inputs_git example_inputs) []
     = (Inr ''release/patch'',
        [Exec ''git'' [''switch'', ''-c'', ''release/patch''] None,
         SetOutput ''pr-branch'' ''release/patch''])"
    unfolding E0_def by code_simp
  have gi: "getInputs E = Inr example_inputs" by (simp add: E_def example_env_def)
  have m: "main E = pre @ Exec ''cargo'' (cargoReleaseArgs ''release/patch'' ''patch'') (Some ''/ws/foo'') # post"
    unfolding E_def pre_def post_def by code_simp
  note T1 = branch_named_before_release [of E0 "''patch''" "inputs_git example_inputs" "[]"
      "''release/patch''" "[Exec ''git'' [''switch'', ''-c'', ''release/patch''] None,
         SetOutput ''pr-branch'' ''release/patch'']" example_inputs]
  note T2 = branch_named_before_release [of E "''patch''" "inputs_git example_inputs" "[]"
      "''release/patch''" "[]" example_inputs pre "''release/patch''" "''patch''" "Some ''/ws/foo''" post]
  from T1 mb have 1: "''release/patch'' = branchPrefix (inputs_git example_inputs)
         @ branchSeparator (inputs_git example_inputs) @ ''patch''"
    by blast
  from T2 gi m have 2: "''patch'' = inputs_version example_inputs" by blast
  show ?thesis using mb m 1 2 unfolding E0_def E_def pre_def post_def by blast
qed


end
